theory Spec2Isabelle
  imports Complex_Main "HOL-Library.Sublist" "HOL-Library.Multiset" "HOL-Library.Product_Lexorder"
begin

section \<open>JavaScript strings\<close>

text \<open>
  A JavaScript string is a sequence of UTF-16 code units. The model keeps the code units
  \<open>0 .. 255\<close> (the Latin-1 range), one \<^typ>\<open>char\<close> each, so \<^const>\<open>length\<close> counts
  what \<open>String.prototype.length\<close> counts. On that range \<open>toLowerCase\<close> maps
  \<open>A-Z\<close>, \<open>U+00C0-U+00D6\<close> and \<open>U+00D8-U+00DE\<close> to the code unit 32 above and
  leaves every other code unit alone, so it preserves the length.
\<close>

definition toLowerChar :: "char \<Rightarrow> char" where
  "toLowerChar c =
     (let n = (of_char c :: nat) in
      if (65 \<le> n \<and> n \<le> 90) \<or> (192 \<le> n \<and> n \<le> 214) \<or> (216 \<le> n \<and> n \<le> 222)
      then char_of (n + 32) else c)"

definition toLowerCase :: "string \<Rightarrow> string" where
  "toLowerCase s = map toLowerChar s"

text \<open>\<open>s.startsWith(p)\<close>\<close>

fun startsWith :: "string \<Rightarrow> string \<Rightarrow> bool" where
  "startsWith s [] = True"
| "startsWith [] (p # ps) = False"
| "startsWith (c # cs) (p # ps) = (c = p \<and> startsWith cs ps)"

text \<open>\<open>s.includes(p)\<close>: \<open>p\<close> occurs in \<open>s\<close> as a contiguous run of code units.\<close>

fun includesStr :: "string \<Rightarrow> string \<Rightarrow> bool" where
  "includesStr [] p = (p = [])"
| "includesStr (c # cs) p = (startsWith (c # cs) p \<or> includesStr cs p)"

text \<open>
  \<open>s.trim()\<close> strips white space and line terminators from both ends; below code unit
  256 these are TAB, LF, VT, FF, CR, SPACE and NO-BREAK SPACE.
\<close>

definition isWhiteSpace :: "char \<Rightarrow> bool" where
  "isWhiteSpace c = ((of_char c :: nat) \<in> {9, 10, 11, 12, 13, 32, 160})"

definition trim :: "string \<Rightarrow> string" where
  "trim s = rev (dropWhile isWhiteSpace (rev (dropWhile isWhiteSpace s)))"

text \<open>\<open>s.slice(0, n)\<close> for a non-negative integer \<open>n\<close>.\<close>

definition slice0 :: "nat \<Rightarrow> 'a list \<Rightarrow> 'a list" where
  "slice0 n s = take n s"

subsection \<open>Regular expressions with the \<open>i\<close> flag\<close>

text \<open>
  Every regular expression of the repository is an alternation of literals under the
  \<open>i\<close> flag, anchored at the start (\<open>^(a|b)\<close>) or not (\<open>(a|b)\<close>, \<open>a|b\<close>). Without the
  \<open>u\<close> flag two code units match when their \<open>Canonicalize\<close> images agree:
  the upper-case mapping, except that a code unit is kept when its upper case is
  several code units long (\<open>U+00DF\<close>) and that a non-ASCII code unit never folds to an
  ASCII one. \<open>U+00B5\<close> and \<open>U+00FF\<close> fold to code units above 255 that no other
  code unit below 256 folds to; they are kept here, which gives the same matches.
\<close>

definition canonicalize :: "char \<Rightarrow> char" where
  "canonicalize c =
     (let n = (of_char c :: nat) in
      if (97 \<le> n \<and> n \<le> 122) \<or> (224 \<le> n \<and> n \<le> 246) \<or> (248 \<le> n \<and> n \<le> 254)
      then char_of (n - 32) else c)"

text \<open>The literal \<open>lit\<close> matches at the start of \<open>s\<close>.\<close>

fun matchesAt :: "string \<Rightarrow> string \<Rightarrow> bool" where
  "matchesAt [] s = True"
| "matchesAt (p # ps) [] = False"
| "matchesAt (p # ps) (c # cs) = (canonicalize p = canonicalize c \<and> matchesAt ps cs)"

text \<open>\<open>/^(a|b|...)/i.test(s)\<close>\<close>

definition testAnchored :: "string list \<Rightarrow> string \<Rightarrow> bool" where
  "testAnchored alts s = list_ex (\<lambda>lit. matchesAt lit s) alts"

text \<open>\<open>/(a|b|...)/i.test(s)\<close>: some alternative matches at some position of \<open>s\<close>.\<close>

fun test :: "string list \<Rightarrow> string \<Rightarrow> bool" where
  "test alts [] = testAnchored alts []"
| "test alts (c # cs) = (testAnchored alts (c # cs) \<or> test alts cs)"

section \<open>Configuration (\<open>config.ts\<close>)\<close>

type_synonym bag = "(string \<times> string) list"

record FormatOptions =
  template :: "string option"
  maxCharsPerDoc :: "nat option"
  hideSource :: "bool option"

record RAGConfig =
  enabled :: bool
  topK :: nat
  includeMetadata :: bool
  cfg_filter :: "bag option"
  formatOptions :: "FormatOptions option"

definition DEFAULT_RAG_CONFIG :: RAGConfig where
  "DEFAULT_RAG_CONFIG =
     \<lparr>enabled = True, topK = 3, includeMetadata = True, cfg_filter = None,
      formatOptions = Some \<lparr>template = None, maxCharsPerDoc = Some 1500, hideSource = Some False\<rparr>\<rparr>"

text \<open>The object spread \<open>{...o}\<close> of an optional object: no fields when it is absent.\<close>

definition spreadFormatOptions :: "FormatOptions option \<Rightarrow> FormatOptions" where
  "spreadFormatOptions fo =
     (case fo of None \<Rightarrow> \<lparr>template = None, maxCharsPerDoc = None, hideSource = None\<rparr>
      | Some f \<Rightarrow> f)"

definition isConversational :: "string \<Rightarrow> bool" where
  "isConversational query =
     testAnchored [''hi'', ''hello'', ''hey'', ''what's up'', ''how are you''] query"

definition isFactual :: "string \<Rightarrow> bool" where
  "isFactual query =
     test [''what is'', ''who is'', ''when did'', ''where is'', ''why is'', ''how does''] query"

definition isInstructional :: "string \<Rightarrow> bool" where
  "isInstructional query =
     test [''write'', ''generate'', ''create'', ''build'', ''implement'', ''code'', ''develop''] query"

definition getRagConfig :: "string \<Rightarrow> string \<Rightarrow> RAGConfig" where
  "getRagConfig query selectedChatModel =
     (if isConversational query then DEFAULT_RAG_CONFIG\<lparr>enabled := False\<rparr>
      else if isFactual query then DEFAULT_RAG_CONFIG\<lparr>topK := 5\<rparr>
      else if isInstructional query then
        DEFAULT_RAG_CONFIG\<lparr>topK := 4,
          formatOptions :=
            Some ((spreadFormatOptions (formatOptions DEFAULT_RAG_CONFIG))\<lparr>maxCharsPerDoc := Some 2000\<rparr>)\<rparr>
      else if selectedChatModel = ''chat-model-reasoning'' then
        DEFAULT_RAG_CONFIG\<lparr>includeMetadata := True,
          formatOptions :=
            Some ((spreadFormatOptions (formatOptions DEFAULT_RAG_CONFIG))\<lparr>hideSource := Some False\<rparr>)\<rparr>
      else DEFAULT_RAG_CONFIG)"

section \<open>Retrieval client (\<open>ragie-client.ts\<close>)\<close>

text \<open>
  Scores are JavaScript numbers. The model takes them as exact rationals: the comparisons
  and the subtraction of the comparator have the sign they have on finite doubles; the
  rounding of the product \<open>score * 0.8\<close> and of \<open>score * 100\<close> is not modelled.
\<close>

record Metadata =
  source :: "string option"
  date :: "string option"

text \<open>An entry of the built-in knowledge base: all four properties are present.\<close>

record KbEntry =
  kb_content :: string
  kb_source :: string
  kb_date :: string
  kb_score :: rat

text \<open>
  What a backend returns for one document: the text under \<open>content\<close> or under
  \<open>text\<close>, and perhaps \<open>metadata\<close> and \<open>score\<close>.
\<close>

record RawResult =
  raw_content :: "string option"
  raw_text :: "string option"
  raw_metadata :: "Metadata option"
  raw_score :: "rat option"

text \<open>
  \<open>RetrievalResult\<close>, with the property \<open>source\<close> that \<open>retrieveContext\<close> adds
  (\<open>'main_query'\<close> or \<open>'expansion_query'\<close>) as \<open>result_source\<close>.
\<close>

record RetrievalResult =
  content :: string
  metadata :: "Metadata option"
  score :: "rat option"
  result_source :: "string option"

text \<open>
  \<open>RetrievalOptions\<close>; a property that may be missing is an option. \<open>topK\<close> is a
  count, a natural number.
\<close>

record RetrievalOptions =
  query :: string
  opt_topK :: "nat option"
  opt_filter :: "bag option"
  opt_includeMetadata :: "bool option"

text \<open>
  A call of the backend throws (or its promise rejects), or it yields a value; the value
  is an array of documents or something else, on which \<open>.map\<close> throws a TypeError.
\<close>

datatype Reply = Throws | NotAnArray | Results "RawResult list"

text \<open>The parameters of a backend call: \<open>query\<close>, \<open>topK\<close>, \<open>filter\<close>, \<open>includeMetadata\<close>.\<close>

type_synonym Method = "string \<Rightarrow> nat \<Rightarrow> bag \<Rightarrow> bool \<Rightarrow> Reply"

text \<open>The client object: its \<open>retrieve\<close> and \<open>search\<close> properties, when they are functions.\<close>

datatype Client = Client (retrieve: "Method option") (search: "Method option")

text \<open>
  The outcome of \<open>await import('ragie')\<close> followed by \<open>new Ragie(...)\<close>: it throws, or it
  gives a client. The module variable \<open>ragieClient\<close> is never assigned, so
  \<open>initRagieClient\<close> always takes this route.
\<close>

datatype Sdk = ImportFails | Ragie Client

definition mockKb :: "KbEntry list" where
  "mockKb =
    [\<lparr>kb_content =
        ''RAG (Retrieval Augmented Generation) is a technique that enhances LLM outputs by retrieving relevant information from external knowledge sources before generating a response. This helps ground the model's responses in factual, up-to-date information.'',
      kb_source = ''RAG Documentation'', kb_date = ''2023-10-15'', kb_score = 92 / 100\<rparr>,
     \<lparr>kb_content =
        ''Prompt engineering is the practice of designing and optimizing input prompts for language models to elicit desired responses. Effective prompt engineering improves output quality, reduces hallucinations, and helps control model behavior.'',
      kb_source = ''AI Best Practices Guide'', kb_date = ''2023-09-22'', kb_score = 87 / 100\<rparr>,
     \<lparr>kb_content =
        ''A common RAG architecture includes: 1) an embedding model to convert documents and queries into vector representations, 2) a vector database for storing and retrieving document embeddings, 3) a retrieval mechanism to find relevant documents, and 4) an LLM to generate responses based on retrieved context.'',
      kb_source = ''RAG Architecture Guide'', kb_date = ''2023-11-05'', kb_score = 85 / 100\<rparr>,
     \<lparr>kb_content =
        ''Chatbots using RAG show significant improvements in factual accuracy compared to those relying solely on pre-trained knowledge. In a recent study, RAG-enhanced chatbots reduced hallucinations by 45% and improved factual accuracy by 37%.'',
      kb_source = ''AI Performance Study'', kb_date = ''2024-01-18'', kb_score = 81 / 100\<rparr>,
     \<lparr>kb_content =
        ''When implementing RAG, it's important to consider: 1) chunking strategy for breaking documents into manageable pieces, 2) embedding model selection for vector representations, 3) retrieval mechanism for finding relevant context, and 4) prompt design for effectively using the retrieved information.'',
      kb_source = ''RAG Implementation Guide'', kb_date = ''2023-12-10'', kb_score = 78 / 100\<rparr>,
     \<lparr>kb_content =
        ''The ragie SDK provides retrieval capabilities with a simple API. It allows you to retrieve relevant context from your knowledge base using vector search and semantic matching.'',
      kb_source = ''Ragie SDK Documentation'', kb_date = ''2023-11-30'', kb_score = 91 / 100\<rparr>,
     \<lparr>kb_content =
        ''To implement effective RAG systems, focus on the quality of your retrieval mechanism first. Even the best language models will generate incorrect information if the retrieved context is poor or irrelevant.'',
      kb_source = ''RAG Best Practices'', kb_date = ''2024-02-15'', kb_score = 83 / 100\<rparr>,
     \<lparr>kb_content =
        ''When designing prompts for RAG systems, include clear instructions on how the model should use the retrieved information. For example, specify whether the model should prioritize retrieved information over its pre-trained knowledge.'',
      kb_source = ''Prompt Engineering for RAG'', kb_date = ''2023-12-05'', kb_score = 89 / 100\<rparr>]"

definition weatherResults :: "KbEntry list" where
  "weatherResults =
    [\<lparr>kb_content =
        ''The weather system integration allows chatbots to retrieve current weather information for a specific location. This provides real-time, accurate weather data to users.'',
      kb_source = ''Weather API Integration Guide'', kb_date = ''2024-01-10'', kb_score = 95 / 100\<rparr>,
     \<lparr>kb_content =
        ''Weather data can be accessed through various APIs like OpenWeatherMap, WeatherAPI, or government meteorological services. Most provide current conditions, forecasts, and historical data.'',
      kb_source = ''API Documentation'', kb_date = ''2023-11-20'', kb_score = 88 / 100\<rparr>]"

definition documentResults :: "KbEntry list" where
  "documentResults =
    [\<lparr>kb_content =
        ''The document creation tool allows chatbots to generate and manage various types of documents like text files, code snippets, and structured data. These documents can be edited, saved, and shared.'',
      kb_source = ''Document Tool Documentation'', kb_date = ''2024-01-05'', kb_score = 94 / 100\<rparr>,
     \<lparr>kb_content =
        ''Artifact-based UI components enhance chatbot functionality by providing dedicated interfaces for different content types. This improves user experience by displaying information in the most appropriate format.'',
      kb_source = ''UI Component Guide'', kb_date = ''2023-12-18'', kb_score = 89 / 100\<rparr>]"

definition getMockRetrievalResults :: "string \<Rightarrow> KbEntry list" where
  "getMockRetrievalResults q =
     (let normalizedQuery = toLowerCase q in
      if includesStr normalizedQuery ''weather'' then weatherResults
      else if includesStr normalizedQuery ''document'' \<or> includesStr normalizedQuery ''artifact''
      then documentResults
      else
        slice0 3
          (filter (\<lambda>entry.
               includesStr (toLowerCase (kb_content entry)) normalizedQuery \<or>
               includesStr normalizedQuery ''rag'' \<or>
               includesStr (toLowerCase (kb_source entry)) ''rag'')
             mockKb))"

text \<open>A knowledge-base entry where a backend document is expected.\<close>

definition asRaw :: "KbEntry \<Rightarrow> RawResult" where
  "asRaw e =
     \<lparr>raw_content = Some (kb_content e), raw_text = None,
      raw_metadata = Some \<lparr>source = Some (kb_source e), date = Some (kb_date e)\<rparr>,
      raw_score = Some (kb_score e)\<rparr>"

definition initRagieClient :: "Sdk \<Rightarrow> Client" where
  "initRagieClient sdk =
     (case sdk of
        Ragie client \<Rightarrow> client
      | ImportFails \<Rightarrow>
          Client (Some (\<lambda>q k f m. Results (map asRaw (getMockRetrievalResults q)))) None)"

section \<open>Prompt augmentation (\<open>advanced-prompting.ts\<close>)\<close>

text \<open>\<open>a.content || ''\<close> on a string is the string itself.\<close>

definition containsQuery :: "string \<Rightarrow> RetrievalResult \<Rightarrow> bool" where
  "containsQuery q a = includesStr (toLowerCase (content a)) (toLowerCase q)"

text \<open>\<open>a.score || 0\<close>: a missing score counts as 0.\<close>

definition scoreOrZero :: "RetrievalResult \<Rightarrow> rat" where
  "scoreOrZero a = (case score a of None \<Rightarrow> 0 | Some s \<Rightarrow> s)"

text \<open>The comparator handed to \<open>sort\<close>: negative when \<open>a\<close> goes first.\<close>

definition compareResults :: "string \<Rightarrow> RetrievalResult \<Rightarrow> RetrievalResult \<Rightarrow> rat" where
  "compareResults q a b =
     (if containsQuery q a \<and> \<not> containsQuery q b then - 1
      else if \<not> containsQuery q a \<and> containsQuery q b then 1
      else scoreOrZero b - scoreOrZero a)"

text \<open>
  \<open>[...xs].sort(cmp)\<close>: ECMAScript sorts stably, so for a consistent comparator the result
  is the one arrangement in which \<open>cmp\<close> never asks for a swap and equivalent elements
  keep their order. Insertion from the right computes it: an element goes in front of
  the first later element it does not have to follow.
\<close>

fun insertBy :: "('a \<Rightarrow> 'a \<Rightarrow> rat) \<Rightarrow> 'a \<Rightarrow> 'a list \<Rightarrow> 'a list" where
  "insertBy cmp x [] = [x]"
| "insertBy cmp x (y # ys) = (if cmp x y \<le> 0 then x # y # ys else y # insertBy cmp x ys)"

definition sortBy :: "('a \<Rightarrow> 'a \<Rightarrow> rat) \<Rightarrow> 'a list \<Rightarrow> 'a list" where
  "sortBy cmp xs = foldr (insertBy cmp) xs []"

definition rerankResults :: "string \<Rightarrow> RetrievalResult list \<Rightarrow> RetrievalResult list" where
  "rerankResults q results =
     (if length results \<le> 1 then results else sortBy (compareResults q) results)"

definition comparisonInstructions :: string where
  "comparisonInstructions =
     ''\<newline>'' @
     ''COMPARISON INSTRUCTIONS:\<newline>'' @
     ''- Create a structured comparison between the items mentioned in the query\<newline>'' @
     ''- Include key similarities and differences\<newline>'' @
     ''- Use a table format when appropriate\<newline>'' @
     ''- Present balanced information about all items being compared''"

definition instructionalGuidelines :: string where
  "instructionalGuidelines =
     ''\<newline>'' @
     ''INSTRUCTIONAL CONTENT GUIDELINES:\<newline>'' @
     ''- Provide clear step-by-step instructions\<newline>'' @
     ''- Number each step\<newline>'' @
     ''- Include important cautions or warnings\<newline>'' @
     ''- Add examples where helpful\<newline>'' @
     ''- Consider both beginners and more experienced users''"

definition codeGenerationGuidelines :: string where
  "codeGenerationGuidelines =
     ''\<newline>'' @
     ''CODE GENERATION GUIDELINES:\<newline>'' @
     ''- Write clean, well-commented code\<newline>'' @
     ''- Include explanations for complex logic\<newline>'' @
     ''- Consider edge cases and error handling\<newline>'' @
     ''- Optimize for readability and maintainability\<newline>'' @
     ''- Provide usage examples where appropriate''"

definition summarizationGuidelines :: string where
  "summarizationGuidelines =
     ''\<newline>'' @
     ''SUMMARIZATION GUIDELINES:\<newline>'' @
     ''- Extract the key points from the context\<newline>'' @
     ''- Be concise but comprehensive\<newline>'' @
     ''- Structure the summary logically\<newline>'' @
     ''- Maintain the original meaning and intent\<newline>'' @
     ''- Highlight the most important information''"

definition generateQuerySpecificInstructions :: "string \<Rightarrow> string" where
  "generateQuerySpecificInstructions q =
     (if test [''compare'', ''difference'', ''similarities'', ''versus'', ''vs''] q then comparisonInstructions
      else if test [''how to'', ''steps'', ''guide'', ''tutorial'', ''instructions''] q then instructionalGuidelines
      else if test [''code'', ''function'', ''program'', ''implement'', ''script''] q then codeGenerationGuidelines
      else if test [''summarize'', ''summary'', ''overview'', ''brief''] q then summarizationGuidelines
      else [])"

definition createEnhancedRAGPrompt :: "string \<Rightarrow> string \<Rightarrow> string \<Rightarrow> string" where
  "createEnhancedRAGPrompt basePrompt userQuery retrievedContext =
    (let queryInstructions = generateQuerySpecificInstructions userQuery in
     basePrompt @
     ''\<newline>'' @
     ''\<newline>'' @
     ''RETRIEVED CONTEXT:\<newline>'' @
     retrievedContext @
     ''\<newline>'' @
     ''\<newline>'' @
     queryInstructions @
     ''\<newline>'' @
     ''\<newline>'' @
     ''INSTRUCTIONS FOR USING CONTEXT:\<newline>'' @
     ''1. Use the retrieved context to provide accurate and informed responses\<newline>'' @
     ''2. Prioritize information from the context when directly relevant to the query\<newline>'' @
     ''3. Always evaluate the reliability and relevance of the context information\<newline>'' @
     ''4. When citing information from the context, indicate the source if available\<newline>'' @
     ''5. If the context is insufficient, use your general knowledge to supplement\<newline>'' @
     ''6. Do not invent or hallucinate information that's not in the context or your knowledge\<newline>'' @
     ''7. If asked about the source of information, be transparent about whether it came from the retrieved context\<newline>'' @
     ''\<newline>'' @
     ''RESPONSE QUALITY GUIDELINES:\<newline>'' @
     ''- Be thorough but concise\<newline>'' @
     ''- Structure your response logically with appropriate headings if needed\<newline>'' @
     ''- Use examples when they aid understanding\<newline>'' @
     ''- Consider different perspectives when appropriate\<newline>'' @
     ''- Focus on answering the user's actual needs, not just the literal query\<newline>'' @
     ''- If the user's question is unclear, request clarification\<newline>'')"

text \<open>\<open>s.replace(/\?$/, '')\<close>: a question mark at the very end is removed.\<close>

definition dropFinalQuestionMark :: "string \<Rightarrow> string" where
  "dropFinalQuestionMark s = (if s \<noteq> [] \<and> last s = CHR ''?'' then butlast s else s)"

definition questionWords :: "string list" where
  "questionWords = [''what'', ''when'', ''where'', ''why'', ''who'', ''how'']"

definition generateExpansionQuery :: "string \<Rightarrow> string" where
  "generateExpansionQuery originalQuery =
     (if list_ex (\<lambda>word. startsWith (toLowerCase originalQuery) word) questionWords
      then ''background information '' @ dropFinalQuestionMark originalQuery
      else ''what is '' @ originalQuery)"

section \<open>Retrieval (\<open>ragie-client.ts\<close>, continued)\<close>

text \<open>
  \<open>safeRetrieve\<close>: the \<open>retrieve\<close> method when the client has one, else \<open>search\<close>, else
  the built-in data; a call that throws is replaced by the built-in data for that query.
\<close>

definition safeRetrieve :: "Client \<Rightarrow> bag \<Rightarrow> bool \<Rightarrow> string \<Rightarrow> nat \<Rightarrow> Reply" where
  "safeRetrieve client flt inclMeta q k =
     (let mock = Results (map asRaw (getMockRetrievalResults q)) in
      case retrieve client of
        Some f \<Rightarrow> (case f q k flt inclMeta of Throws \<Rightarrow> mock | r \<Rightarrow> r)
      | None \<Rightarrow>
          (case search client of
             Some g \<Rightarrow> (case g q k flt inclMeta of Throws \<Rightarrow> mock | r \<Rightarrow> r)
           | None \<Rightarrow> mock))"

text \<open>\<open>result.content || result.text || ''\<close>: an empty string is falsy.\<close>

definition contentOf :: "RawResult \<Rightarrow> string" where
  "contentOf r =
     (case raw_content r of
        Some c \<Rightarrow> if c \<noteq> [] then c else (case raw_text r of Some t \<Rightarrow> t | None \<Rightarrow> [])
      | None \<Rightarrow> (case raw_text r of Some t \<Rightarrow> t | None \<Rightarrow> []))"

text \<open>\<open>result.score || d\<close>: a missing score and the score 0 give the default.\<close>

definition scoreOr :: "rat \<Rightarrow> RawResult \<Rightarrow> rat" where
  "scoreOr d r = (case raw_score r of None \<Rightarrow> d | Some s \<Rightarrow> if s = 0 then d else s)"

definition formatMain :: "bool \<Rightarrow> RawResult \<Rightarrow> RetrievalResult" where
  "formatMain inclMeta r =
     \<lparr>content = contentOf r,
      metadata = (if inclMeta then raw_metadata r else None),
      score = Some (scoreOr (9 / 10) r),
      result_source = Some ''main_query''\<rparr>"

definition formatExpansion :: "bool \<Rightarrow> RawResult \<Rightarrow> RetrievalResult" where
  "formatExpansion inclMeta r =
     \<lparr>content = contentOf r,
      metadata = (if inclMeta then raw_metadata r else None),
      score = Some (scoreOr (7 / 10) r * (8 / 10)),
      result_source = Some ''expansion_query''\<rparr>"

text \<open>The element of the \<open>catch\<close> branch of \<open>retrieveContext\<close>: no \<open>source\<close> property.\<close>

definition formatFallback :: "bool \<Rightarrow> KbEntry \<Rightarrow> RetrievalResult" where
  "formatFallback inclMeta e =
     \<lparr>content = kb_content e,
      metadata = (if inclMeta then Some \<lparr>source = Some (kb_source e), date = Some (kb_date e)\<rparr> else None),
      score = Some (kb_score e),
      result_source = None\<rparr>"

definition contentHash :: "RetrievalResult \<Rightarrow> string" where
  "contentHash r = toLowerCase (trim (slice0 100 (content r)))"

text \<open>The loop of \<open>removeDuplicateResults\<close>, with its two variables \<open>seen\<close> and \<open>uniqueResults\<close>.\<close>

fun removeDuplicatesLoop ::
  "string set \<Rightarrow> RetrievalResult list \<Rightarrow> RetrievalResult list \<Rightarrow> RetrievalResult list" where
  "removeDuplicatesLoop seen uniqueResults [] = uniqueResults"
| "removeDuplicatesLoop seen uniqueResults (r # rs) =
     (if contentHash r \<notin> seen
      then removeDuplicatesLoop (insert (contentHash r) seen) (uniqueResults @ [r]) rs
      else removeDuplicatesLoop seen uniqueResults rs)"

definition removeDuplicateResults :: "RetrievalResult list \<Rightarrow> RetrievalResult list" where
  "removeDuplicateResults results = removeDuplicatesLoop {} [] results"

text \<open>
  \<open>Math.ceil(topK * 0.7)\<close> and \<open>Math.ceil(topK * 0.5)\<close> for a count \<open>topK\<close>, with the
  exact products. Only the backend reads these numbers.
\<close>

definition mainCount :: "nat \<Rightarrow> nat" where
  "mainCount k = nat \<lceil>rat_of_nat k * (7 / 10)\<rceil>"

definition expansionCount :: "nat \<Rightarrow> nat" where
  "expansionCount k = nat \<lceil>rat_of_nat k * (5 / 10)\<rceil>"

text \<open>
  The defaults of the destructured parameter of \<open>retrieveContext\<close>: \<open>topK = 3\<close>,
  \<open>filter = {}\<close>, \<open>includeMetadata = true\<close>.
\<close>

definition topKOf :: "RetrievalOptions \<Rightarrow> nat" where
  "topKOf options = (case opt_topK options of None \<Rightarrow> 3 | Some n \<Rightarrow> n)"

definition filterOf :: "RetrievalOptions \<Rightarrow> bag" where
  "filterOf options = (case opt_filter options of None \<Rightarrow> [] | Some f \<Rightarrow> f)"

definition includeMetadataOf :: "RetrievalOptions \<Rightarrow> bool" where
  "includeMetadataOf options = (case opt_includeMetadata options of None \<Rightarrow> True | Some b \<Rightarrow> b)"

text \<open>
  \<open>retrieveContext\<close>. Inside the \<open>try\<close> block \<open>initRagieClient\<close> and \<open>safeRetrieve\<close>
  catch their own errors, so what can throw is \<open>.map\<close> on a reply that is not an array;
  the \<open>catch\<close> branch then returns the built-in data for the query.
\<close>

definition retrieveContext :: "Sdk \<Rightarrow> RetrievalOptions \<Rightarrow> RetrievalResult list" where
  "retrieveContext sdk options =
     (let q = query options;
          k = topKOf options;
          flt = filterOf options;
          inclMeta = includeMetadataOf options;
          client = initRagieClient sdk;
          expansionQuery = generateExpansionQuery q;
          fallback = map (formatFallback inclMeta) (getMockRetrievalResults q)
      in case safeRetrieve client flt inclMeta q (mainCount k) of
           Results mainResults \<Rightarrow>
             (case safeRetrieve client flt inclMeta expansionQuery (expansionCount k) of
                Results expansionResults \<Rightarrow>
                  (let mainFormattedResults = map (formatMain inclMeta) mainResults;
                       expansionFormattedResults = map (formatExpansion inclMeta) expansionResults;
                       allResults = mainFormattedResults @ expansionFormattedResults;
                       uniqueResults = removeDuplicateResults allResults;
                       rerankedResults = rerankResults q uniqueResults
                   in slice0 k rerankedResults)
              | _ \<Rightarrow> fallback)
         | _ \<Rightarrow> fallback)"

subsection \<open>Formatting\<close>

text \<open>The decimal numeral of a number, as a template literal prints an integer.\<close>

fun natToString :: "nat \<Rightarrow> string" where
  "natToString n =
     (if n < 10 then [char_of (48 + n)]
      else natToString (n div 10) @ [char_of (48 + n mod 10)])"

declare natToString.simps [simp del]

definition intToString :: "int \<Rightarrow> string" where
  "intToString i = (if i < 0 then CHR ''-'' # natToString (nat (- i)) else natToString (nat i))"

text \<open>\<open>Math.round\<close>: the nearest integer, a half rounding up.\<close>

definition mathRound :: "rat \<Rightarrow> int" where
  "mathRound x = \<lfloor>x + 1 / 2\<rfloor>"

text \<open>\<open>source || 'Unknown'\<close>\<close>

definition sourceOrUnknown :: "string option \<Rightarrow> string" where
  "sourceOrUnknown s = (case s of None \<Rightarrow> ''Unknown'' | Some t \<Rightarrow> if t = [] then ''Unknown'' else t)"

definition metadataString :: "RetrievalResult \<Rightarrow> string" where
  "metadataString result =
     (case metadata result of
        None \<Rightarrow> []
      | Some md \<Rightarrow>
          ''\<newline>Source: '' @ sourceOrUnknown (source md) @
          (case date md of
             None \<Rightarrow> []
           | Some d \<Rightarrow> if d = [] then [] else '' ('' @ d @ '')'') @
          (case score result of
             None \<Rightarrow> []
           | Some s \<Rightarrow> ''\<newline>Relevance: '' @ intToString (mathRound (s * 100)) @ ''%''))"

definition formatDocument :: "nat \<Rightarrow> RetrievalResult \<Rightarrow> string" where
  "formatDocument index result =
     ''[Document '' @ natToString (index + 1) @ '']:\<newline>'' @ content result @ metadataString result"

text \<open>\<open>xs.join(sep)\<close>\<close>

fun join :: "string \<Rightarrow> string list \<Rightarrow> string" where
  "join sep [] = []"
| "join sep [x] = x"
| "join sep (x # y # ys) = x @ sep @ join sep (y # ys)"

definition formatRetrievedContext :: "RetrievalResult list \<Rightarrow> string" where
  "formatRetrievedContext retrievalResults =
     (if retrievalResults = [] then []
      else join ''\<newline>\<newline>''
             (map (\<lambda>(index, result). formatDocument index result) (enumerate 0 retrievalResults)))"

section \<open>Orchestrator (\<open>prompt-engineering.ts\<close>)\<close>

record Part =
  part_type :: string
  part_text :: "string option"

record UIMessage =
  role :: string
  msg_content :: "string option"
  parts :: "Part list option"

text \<open>\<open>part.text\<close> inside \<open>join\<close>: an undefined element prints as the empty string.\<close>

definition partText :: "Part \<Rightarrow> string" where
  "partText p = (case part_text p of None \<Rightarrow> [] | Some t \<Rightarrow> t)"

definition extractQueryFromMessage :: "UIMessage \<Rightarrow> string" where
  "extractQueryFromMessage message =
     (case msg_content message of
        Some c \<Rightarrow> c
      | None \<Rightarrow>
          (case parts message of
             Some ps \<Rightarrow>
               (let textParts = filter (\<lambda>part. part_type part = ''text'') ps in
                if length textParts > 0 then join '' '' (map partText textParts) else [])
           | None \<Rightarrow> []))"

text \<open>\<open>messages.filter((msg) => msg.role === 'user').pop()\<close>\<close>

definition lastUserMessage :: "UIMessage list \<Rightarrow> UIMessage option" where
  "lastUserMessage messages =
     (case rev (filter (\<lambda>msg. role msg = ''user'') messages) of
        [] \<Rightarrow> None
      | m # _ \<Rightarrow> Some m)"

text \<open>The \<open>RetrievalOptions\<close> object that \<open>enhancePromptWithRAG\<close> builds from the configuration.\<close>

definition retrievalOptionsOf :: "string \<Rightarrow> RAGConfig \<Rightarrow> RetrievalOptions" where
  "retrievalOptionsOf queryText ragConfig =
     \<lparr>query = queryText, opt_topK = Some (topK ragConfig),
      opt_filter = cfg_filter ragConfig,
      opt_includeMetadata = Some (includeMetadata ragConfig)\<rparr>"

text \<open>The default parameter \<open>selectedChatModel = 'chat-model'\<close>.\<close>

definition chatModelOf :: "string option \<Rightarrow> string" where
  "chatModelOf selectedChatModel =
     (case selectedChatModel of None \<Rightarrow> ''chat-model'' | Some m \<Rightarrow> m)"

text \<open>\<open>enhancePromptWithRAG\<close>. The argument \<open>requestHints\<close> is not read.\<close>

definition enhancePromptWithRAG ::
  "Sdk \<Rightarrow> string \<Rightarrow> UIMessage list \<Rightarrow> 'h \<Rightarrow> string option \<Rightarrow> string" where
  "enhancePromptWithRAG sdk systemPromptText messages requestHints selectedChatModel =
     (case lastUserMessage messages of
        None \<Rightarrow> systemPromptText
      | Some userMessage \<Rightarrow>
          (let queryText = extractQueryFromMessage userMessage in
           if queryText = [] then systemPromptText
           else
             (let ragConfig = getRagConfig queryText (chatModelOf selectedChatModel) in
              if \<not> enabled ragConfig then systemPromptText
              else
                (let retrievalOptions = retrievalOptionsOf queryText ragConfig;
                     retrievedResults = retrieveContext sdk retrievalOptions
                 in if retrievedResults = [] then systemPromptText
                    else
                      (let formattedContext = formatRetrievedContext retrievedResults in
                       if formattedContext = [] then systemPromptText
                       else createEnhancedRAGPrompt systemPromptText queryText formattedContext)))))"

section \<open>The specification's wording, and inputs for the examples\<close>

text \<open>
  The specification's duplicate key, following its words: the first 100 characters of
  the lower-cased, trimmed content.
\<close>

definition specContentKey :: "string \<Rightarrow> string" where
  "specContentKey c = slice0 100 (toLowerCase (trim c))"






text \<open>The \<open>source\<close> of a result's metadata, when there is one.\<close>

definition sourceOf :: "RetrievalResult \<Rightarrow> string option" where
  "sourceOf r = (case metadata r of None \<Rightarrow> None | Some md \<Rightarrow> source md)"

text \<open>A result with content and perhaps a score, without metadata.\<close>

definition bareResult :: "string \<Rightarrow> rat option \<Rightarrow> RetrievalResult" where
  "bareResult c s = \<lparr>content = c, metadata = None, score = s, result_source = None\<rparr>"


text \<open>A backend document with text and score only.\<close>

definition rawDocument :: "string \<Rightarrow> rat \<Rightarrow> RawResult" where
  "rawDocument c s = \<lparr>raw_content = Some c, raw_text = None, raw_metadata = None, raw_score = Some s\<rparr>"

text \<open>A message of the user with plain text content, and a message of the assistant.\<close>

definition userMessage :: "string \<Rightarrow> UIMessage" where
  "userMessage t = \<lparr>role = ''user'', msg_content = Some t, parts = None\<rparr>"

definition assistantMessage :: "string \<Rightarrow> UIMessage" where
  "assistantMessage t = \<lparr>role = ''assistant'', msg_content = Some t, parts = None\<rparr>"

text \<open>Backends: one that finds nothing, one whose calls all throw, one whose replies are no arrays.\<close>

definition emptyBackend :: Sdk where
  "emptyBackend = Ragie (Client (Some (\<lambda>q k f m. Results [])) None)"

definition throwingBackend :: Sdk where
  "throwingBackend = Ragie (Client (Some (\<lambda>q k f m. Throws)) None)"

definition malformedBackend :: Sdk where
  "malformedBackend = Ragie (Client (Some (\<lambda>q k f m. NotAnArray)) None)"

text \<open>
  A backend that answers the query \<open>dup\<close> with two documents, the first a space followed
  by a hundred \<open>a\<close>, the second a hundred \<open>a\<close>, and every other query with nothing.
\<close>

definition paddedContent :: string where
  "paddedContent = CHR '' '' # replicate 100 (CHR ''a'')"

definition plainContent :: string where
  "plainContent = replicate 100 (CHR ''a'')"

definition dupBackend :: Sdk where
  "dupBackend =
     Ragie (Client
       (Some (\<lambda>q k f m.
          if q = ''dup''
          then Results [rawDocument paddedContent (9 / 10), rawDocument plainContent (1 / 2)]
          else Results []))
       None)"

definition optionsFor :: "string \<Rightarrow> nat option \<Rightarrow> RetrievalOptions" where
  "optionsFor q k = \<lparr>query = q, opt_topK = k, opt_filter = None, opt_includeMetadata = None\<rparr>"

text \<open>
  The two replies that \<open>retrieveContext\<close> awaits: \<open>safeRetrieve\<close> for the query and for
  the expansion query.
\<close>

definition mainReply :: "Sdk \<Rightarrow> RetrievalOptions \<Rightarrow> Reply" where
  "mainReply sdk options =
     safeRetrieve (initRagieClient sdk) (filterOf options) (includeMetadataOf options)
       (query options) (mainCount (topKOf options))"

definition expansionReply :: "Sdk \<Rightarrow> RetrievalOptions \<Rightarrow> Reply" where
  "expansionReply sdk options =
     safeRetrieve (initRagieClient sdk) (filterOf options) (includeMetadataOf options)
       (generateExpansionQuery (query options)) (expansionCount (topKOf options))"

text \<open>The list \<open>allResults\<close> of \<open>retrieveContext\<close>: the main results, then the expansion results.\<close>

definition combinedResults :: "bool \<Rightarrow> RawResult list \<Rightarrow> RawResult list \<Rightarrow> RetrievalResult list" where
  "combinedResults inclMeta mainResults expansionResults =
     map (formatMain inclMeta) mainResults @ map (formatExpansion inclMeta) expansionResults"

text \<open>
  The results whose key is not in \<open>seen\<close> and has not occurred before, in their order:
  what the loop of \<open>removeDuplicateResults\<close> appends to \<open>uniqueResults\<close>.
\<close>

fun firstOccurrences :: "string set \<Rightarrow> RetrievalResult list \<Rightarrow> RetrievalResult list" where
  "firstOccurrences seen [] = []"
| "firstOccurrences seen (r # rs) =
     (if contentHash r \<in> seen then firstOccurrences seen rs
      else r # firstOccurrences (insert (contentHash r) seen) rs)"

text \<open>
  The sort key that the comparator \<open>compareResults\<close> induces: results that contain the
  query first, then the higher score first.
\<close>

definition rankKey :: "string \<Rightarrow> RetrievalResult \<Rightarrow> bool \<times> rat" where
  "rankKey q r = (\<not> containsQuery q r, - scoreOrZero r)"

section \<open>Evaluating the character functions\<close>

text \<open>
  The three character functions on a character given by its bits, so that the simplifier
  evaluates them on literals without arithmetic.
\<close>

lemma toLowerChar_Char:
  "toLowerChar (Char b0 b1 b2 b3 b4 b5 b6 b7) =
     Char b0 b1 b2 b3 b4
       (b5 \<or> (b6 \<and> ((\<not> b7 \<and> (b0 \<or> b1 \<or> b2 \<or> b3 \<or> b4) \<and> \<not> (b4 \<and> b3 \<and> (b2 \<or> (b1 \<and> b0)))) \<or>
                    (b7 \<and> \<not> (b4 \<and> b3 \<and> b2 \<and> b1 \<and> b0) \<and> \<not> (b4 \<and> \<not> b3 \<and> b2 \<and> b1 \<and> b0)))))
       b6 b7"
  by (cases b0; cases b1; cases b2; cases b3; cases b4; cases b5; cases b6; cases b7;
      simp add: toLowerChar_def char_of_eq_iff)

lemma canonicalize_Char:
  "canonicalize (Char b0 b1 b2 b3 b4 b5 b6 b7) =
     Char b0 b1 b2 b3 b4
       (b5 \<and> \<not> (b6 \<and> ((\<not> b7 \<and> (b0 \<or> b1 \<or> b2 \<or> b3 \<or> b4) \<and> \<not> (b4 \<and> b3 \<and> (b2 \<or> (b1 \<and> b0)))) \<or>
                    (b7 \<and> \<not> (b4 \<and> b3 \<and> b2 \<and> b1 \<and> b0) \<and> \<not> (b4 \<and> \<not> b3 \<and> b2 \<and> b1 \<and> b0)))))
       b6 b7"
  by (cases b0; cases b1; cases b2; cases b3; cases b4; cases b5; cases b6; cases b7;
      simp add: canonicalize_def char_of_eq_iff)

lemma isWhiteSpace_Char:
  "isWhiteSpace (Char b0 b1 b2 b3 b4 b5 b6 b7) =
     ((\<not> b7 \<and> \<not> b6 \<and> \<not> b5 \<and> \<not> b4 \<and> b3 \<and> (\<not> b2 \<and> (b1 \<or> b0) \<or> b2 \<and> \<not> b1)) \<or>
      (\<not> b6 \<and> b5 \<and> \<not> b4 \<and> \<not> b3 \<and> \<not> b2 \<and> \<not> b1 \<and> \<not> b0))"
  by (cases b0; cases b1; cases b2; cases b3; cases b4; cases b5; cases b6; cases b7;
      simp add: isWhiteSpace_def)

lemmas classify = isConversational_def isFactual_def isInstructional_def testAnchored_def
  canonicalize_Char

lemmas lower = toLowerCase_def toLowerChar_Char



section \<open>The string tests, characterised\<close>

text \<open>
  \<open>startsWith\<close> and \<open>includesStr\<close> are the prefix and the contiguous-sublist relations
  of the library.
\<close>

lemma startsWith_prefix: "startsWith s p \<longleftrightarrow> prefix p s"
  by (induction s p rule: startsWith.induct) auto

lemma includesStr_sublist: "includesStr s p \<longleftrightarrow> sublist p s"
  by (induction s) (auto simp: startsWith_prefix sublist_Cons_right)

text \<open>
  A pattern test succeeds exactly when some alternative occurs in the text up to the case
  folding of the \<open>i\<close> flag: at the start for an anchored pattern, anywhere otherwise.
\<close>

lemma matchesAt_iff:
  "matchesAt lit s \<longleftrightarrow> (\<exists>mid rest. s = mid @ rest \<and> map canonicalize mid = map canonicalize lit)"
proof (induction lit s rule: matchesAt.induct)
  case (1 s)
  show ?case by simp
next
  case (2 p ps)
  show ?case by simp
next
  case (3 p ps c cs)
  show ?case
  proof
    assume "matchesAt (p # ps) (c # cs)"
    with 3 obtain mid rest where "cs = mid @ rest" "map canonicalize mid = map canonicalize ps"
      "canonicalize p = canonicalize c"
      by auto
    then have "c # cs = (c # mid) @ rest \<and> map canonicalize (c # mid) = map canonicalize (p # ps)"
      by simp
    then show "\<exists>mid rest. c # cs = mid @ rest \<and> map canonicalize mid = map canonicalize (p # ps)"
      by blast
  next
    assume "\<exists>mid rest. c # cs = mid @ rest \<and> map canonicalize mid = map canonicalize (p # ps)"
    then obtain mid rest where m: "c # cs = mid @ rest" "map canonicalize mid = map canonicalize (p # ps)"
      by blast
    then obtain mid' where "mid = c # mid'"
      by (cases mid) auto
    with m have "cs = mid' @ rest" "map canonicalize mid' = map canonicalize ps"
      "canonicalize c = canonicalize p"
      by auto
    with 3 show "matchesAt (p # ps) (c # cs)" by auto
  qed
qed

lemma testAnchored_iff:
  "testAnchored alts s \<longleftrightarrow>
     (\<exists>lit\<in>set alts. \<exists>mid rest. s = mid @ rest \<and> map canonicalize mid = map canonicalize lit)"
  by (simp add: testAnchored_def list_ex_iff matchesAt_iff)

lemma test_iff:
  "test alts s \<longleftrightarrow>
     (\<exists>lit\<in>set alts. \<exists>before mid rest.
        s = before @ mid @ rest \<and> map canonicalize mid = map canonicalize lit)"
proof (induction s)
  case Nil
  show ?case by (auto simp: testAnchored_iff)
next
  case (Cons c cs)
  note IH = Cons.IH
  show ?case
  proof
    assume "test alts (c # cs)"
    then consider "testAnchored alts (c # cs)" | "test alts cs" by auto
    then show "\<exists>lit\<in>set alts. \<exists>before mid rest.
        c # cs = before @ mid @ rest \<and> map canonicalize mid = map canonicalize lit"
    proof cases
      case 1
      then obtain lit mid rest where "lit \<in> set alts" "c # cs = [] @ mid @ rest"
        "map canonicalize mid = map canonicalize lit"
        by (auto simp: testAnchored_iff)
      then show ?thesis by blast
    next
      case 2
      with IH obtain lit before mid rest where "lit \<in> set alts" "cs = before @ mid @ rest"
        "map canonicalize mid = map canonicalize lit"
        by auto
      then have "lit \<in> set alts" "c # cs = (c # before) @ mid @ rest"
        "map canonicalize mid = map canonicalize lit"
        by simp_all
      then show ?thesis by blast
    qed
  next
    assume "\<exists>lit\<in>set alts. \<exists>before mid rest.
        c # cs = before @ mid @ rest \<and> map canonicalize mid = map canonicalize lit"
    then obtain lit before mid rest where l: "lit \<in> set alts" "c # cs = before @ mid @ rest"
      "map canonicalize mid = map canonicalize lit"
      by blast
    show "test alts (c # cs)"
    proof (cases before)
      case Nil
      with l have "testAnchored alts (c # cs)"
        by (auto simp: testAnchored_iff)
      then show ?thesis by simp
    next
      case (Cons b before')
      with l have "cs = before' @ mid @ rest" by simp
      with l IH have "test alts cs" by blast
      then show ?thesis by simp
    qed
  qed
qed

section \<open>Properties of the configuration classifier\<close>

text \<open>
  Claim C2. \<open>getRagConfig\<close> applies the first matching rule, in this order: a query that
  matches the greeting pattern gets \<open>enabled = false\<close>; otherwise a query that matches
  the factual pattern gets \<open>topK = 5\<close>; otherwise a query that matches the instructional
  pattern gets \<open>topK = 4\<close> and \<open>maxCharsPerDoc = 2000\<close>; otherwise the model id
  \<open>chat-model-reasoning\<close> gets \<open>includeMetadata = true\<close> and \<open>hideSource = false\<close>;
  otherwise the result is the default configuration, which is enabled with \<open>topK = 3\<close>,
  \<open>includeMetadata = true\<close> and \<open>maxCharsPerDoc = 1500\<close>.
\<close>

theorem getRagConfig_first_match:
  "(isConversational q \<longrightarrow> enabled (getRagConfig q m) = False) \<and>
   (\<not> isConversational q \<and> isFactual q \<longrightarrow> topK (getRagConfig q m) = 5) \<and>
   (\<not> isConversational q \<and> \<not> isFactual q \<and> isInstructional q \<longrightarrow>
      topK (getRagConfig q m) = 4 \<and>
      map_option maxCharsPerDoc (formatOptions (getRagConfig q m)) = Some (Some 2000)) \<and>
   (\<not> isConversational q \<and> \<not> isFactual q \<and> \<not> isInstructional q \<and>
    m = ''chat-model-reasoning'' \<longrightarrow>
      includeMetadata (getRagConfig q m) = True \<and>
      map_option hideSource (formatOptions (getRagConfig q m)) = Some (Some False)) \<and>
   (\<not> isConversational q \<and> \<not> isFactual q \<and> \<not> isInstructional q \<and>
    m \<noteq> ''chat-model-reasoning'' \<longrightarrow>
      getRagConfig q m = DEFAULT_RAG_CONFIG \<and>
      enabled (getRagConfig q m) = True \<and> topK (getRagConfig q m) = 3 \<and>
      includeMetadata (getRagConfig q m) = True \<and>
      map_option maxCharsPerDoc (formatOptions (getRagConfig q m)) = Some (Some 1500))"
  by (simp add: getRagConfig_def DEFAULT_RAG_CONFIG_def spreadFormatOptions_def)

theorem getRagConfig_first_match_witness:
  "enabled (getRagConfig ''Hello there'' ''chat-model'') = False \<and>
   topK (getRagConfig ''so what is RAG?'' ''chat-model'') = 5 \<and>
   topK (getRagConfig ''Build a parser'' ''chat-model'') = 4 \<and>
   map_option maxCharsPerDoc (formatOptions (getRagConfig ''Build a parser'' ''chat-model'')) = Some (Some 2000) \<and>
   map_option hideSource (formatOptions (getRagConfig ''tell me more'' ''chat-model-reasoning'')) = Some (Some False) \<and>
   getRagConfig ''tell me more'' ''chat-model'' = DEFAULT_RAG_CONFIG"
proof -
  have a: "isConversational ''Hello there''" by (simp add: classify)
  have b: "\<not> isConversational ''so what is RAG?'' \<and> isFactual ''so what is RAG?''" by (simp add: classify)
  have c: "\<not> isConversational ''Build a parser'' \<and> \<not> isFactual ''Build a parser'' \<and>
           isInstructional ''Build a parser''" by (simp add: classify)
  have d: "\<not> isConversational ''tell me more'' \<and> \<not> isFactual ''tell me more'' \<and>
           \<not> isInstructional ''tell me more''" by (simp add: classify)
  have e: "''chat-model'' \<noteq> ''chat-model-reasoning''" by simp
  note t = getRagConfig_first_match
  have 1: "enabled (getRagConfig ''Hello there'' ''chat-model'') = False"
    by (rule mp [OF conjunct1 [OF t] a])
  have 2: "topK (getRagConfig ''so what is RAG?'' ''chat-model'') = 5"
    by (rule mp [OF conjunct1 [OF conjunct2 [OF t]] b])
  have 3: "topK (getRagConfig ''Build a parser'' ''chat-model'') = 4 \<and>
      map_option maxCharsPerDoc (formatOptions (getRagConfig ''Build a parser'' ''chat-model'')) = Some (Some 2000)"
    by (rule mp [OF conjunct1 [OF conjunct2 [OF conjunct2 [OF t]]] c])
  have 4: "includeMetadata (getRagConfig ''tell me more'' ''chat-model-reasoning'') = True \<and>
      map_option hideSource (formatOptions (getRagConfig ''tell me more'' ''chat-model-reasoning'')) = Some (Some False)"
    by (rule mp [OF conjunct1 [OF conjunct2 [OF conjunct2 [OF conjunct2 [OF t]]]]]) (simp add: d)
  have 5: "getRagConfig ''tell me more'' ''chat-model'' = DEFAULT_RAG_CONFIG \<and>
      enabled (getRagConfig ''tell me more'' ''chat-model'') = True \<and>
      topK (getRagConfig ''tell me more'' ''chat-model'') = 3 \<and>
      includeMetadata (getRagConfig ''tell me more'' ''chat-model'') = True \<and>
      map_option maxCharsPerDoc (formatOptions (getRagConfig ''tell me more'' ''chat-model'')) = Some (Some 1500)"
    by (rule mp [OF conjunct2 [OF conjunct2 [OF conjunct2 [OF conjunct2 [OF t]]]]]) (simp add: d)
  show ?thesis using 1 2 3 4 5 by simp
qed

text \<open>
  Claim C10. For every query and every model id the configuration returned by
  \<open>getRagConfig\<close> has \<open>includeMetadata = true\<close> and a \<open>topK\<close> of 3, 4 or 5: no input
  switches the metadata off.
\<close>

theorem getRagConfig_metadata_topK:
  "includeMetadata (getRagConfig q m) = True \<and> topK (getRagConfig q m) \<in> {3, 4, 5}"
  by (simp add: getRagConfig_def DEFAULT_RAG_CONFIG_def)

section \<open>Properties of the orchestrator\<close>

text \<open>
  \<open>lastUserMessage\<close> finds nothing exactly in a history without a message of the user,
  and otherwise the message of the user that no other such message follows.
\<close>

lemma lastUserMessage_none:
  "(\<forall>msg\<in>set messages. role msg \<noteq> ''user'') \<Longrightarrow> lastUserMessage messages = None"
  by (simp add: lastUserMessage_def filter_empty_conv)

lemma lastUserMessage_last:
  assumes "role um = ''user''" and "\<forall>msg\<in>set post. role msg \<noteq> ''user''"
  shows "lastUserMessage (pre @ um # post) = Some um"
proof -
  have "filter (\<lambda>msg. role msg = ''user'') post = []"
    using assms(2) by (simp add: filter_empty_conv)
  then show ?thesis
    using assms(1) by (simp add: lastUserMessage_def)
qed

text \<open>
  Claim C1. On each short-circuit path \<open>enhancePromptWithRAG\<close> returns \<open>systemPrompt\<close>
  itself: when the history has no message with role \<open>user\<close>; and, for the last message
  \<open>um\<close> of the user, when its extracted query text is empty, when \<open>getRagConfig\<close>
  disables retrieval for the query, when \<open>retrieveContext\<close> returns no result, and when
  the formatted context is the empty string.
\<close>

theorem enhancePromptWithRAG_short_circuits:
  fixes requestHints :: 'h
  shows
  "((\<forall>msg\<in>set messages. role msg \<noteq> ''user'') \<longrightarrow>
      enhancePromptWithRAG sdk systemPrompt messages requestHints model = systemPrompt) \<and>
   (messages = pre @ um # post \<and> role um = ''user'' \<and> (\<forall>msg\<in>set post. role msg \<noteq> ''user'') \<longrightarrow>
      (extractQueryFromMessage um = [] \<longrightarrow>
         enhancePromptWithRAG sdk systemPrompt messages requestHints model = systemPrompt) \<and>
      (\<not> enabled (getRagConfig (extractQueryFromMessage um) (chatModelOf model)) \<longrightarrow>
         enhancePromptWithRAG sdk systemPrompt messages requestHints model = systemPrompt) \<and>
      (retrieveContext sdk
         (retrievalOptionsOf (extractQueryFromMessage um)
            (getRagConfig (extractQueryFromMessage um) (chatModelOf model))) = [] \<longrightarrow>
         enhancePromptWithRAG sdk systemPrompt messages requestHints model = systemPrompt) \<and>
      (formatRetrievedContext
         (retrieveContext sdk
            (retrievalOptionsOf (extractQueryFromMessage um)
               (getRagConfig (extractQueryFromMessage um) (chatModelOf model)))) = [] \<longrightarrow>
         enhancePromptWithRAG sdk systemPrompt messages requestHints model = systemPrompt))"
proof (intro conjI impI)
  assume "\<forall>msg\<in>set messages. role msg \<noteq> ''user''"
  then show "enhancePromptWithRAG sdk systemPrompt messages requestHints model = systemPrompt"
    by (simp add: enhancePromptWithRAG_def lastUserMessage_none)
next
  assume "messages = pre @ um # post \<and> role um = ''user'' \<and> (\<forall>msg\<in>set post. role msg \<noteq> ''user'')"
  then have l: "lastUserMessage messages = Some um"
    by (simp add: lastUserMessage_last)
  {
    assume "extractQueryFromMessage um = []"
    then show "enhancePromptWithRAG sdk systemPrompt messages requestHints model = systemPrompt"
      using l by (simp add: enhancePromptWithRAG_def)
  next
    assume "\<not> enabled (getRagConfig (extractQueryFromMessage um) (chatModelOf model))"
    then show "enhancePromptWithRAG sdk systemPrompt messages requestHints model = systemPrompt"
      using l by (simp add: enhancePromptWithRAG_def Let_def)
  next
    assume "retrieveContext sdk
         (retrievalOptionsOf (extractQueryFromMessage um)
            (getRagConfig (extractQueryFromMessage um) (chatModelOf model))) = []"
    then show "enhancePromptWithRAG sdk systemPrompt messages requestHints model = systemPrompt"
      using l by (simp add: enhancePromptWithRAG_def Let_def)
  next
    assume "formatRetrievedContext
         (retrieveContext sdk
            (retrievalOptionsOf (extractQueryFromMessage um)
               (getRagConfig (extractQueryFromMessage um) (chatModelOf model)))) = []"
    then show "enhancePromptWithRAG sdk systemPrompt messages requestHints model = systemPrompt"
      using l by (simp add: enhancePromptWithRAG_def Let_def)
  }
qed

theorem enhancePromptWithRAG_short_circuits_witness:
  "enhancePromptWithRAG ImportFails ''Be brief.'' [assistantMessage ''Welcome'']
      () None = ''Be brief.'' \<and>
   enhancePromptWithRAG ImportFails ''Be brief.'' [userMessage '''', assistantMessage ''Yes?'']
      () None = ''Be brief.'' \<and>
   enhancePromptWithRAG ImportFails ''Be brief.'' [userMessage ''hello'']
      () None = ''Be brief.'' \<and>
   enhancePromptWithRAG emptyBackend ''Be brief.'' [userMessage ''tell me more'']
      () None = ''Be brief.''"
proof -
  note t = enhancePromptWithRAG_short_circuits
  have 1: "enhancePromptWithRAG ImportFails ''Be brief.'' [assistantMessage ''Welcome'']
      () None = ''Be brief.''"
    by (rule mp [OF conjunct1 [OF t]]) (simp add: assistantMessage_def)
  have s2: "[userMessage '''', assistantMessage ''Yes?''] = [] @ userMessage '''' # [assistantMessage ''Yes?''] \<and>
      role (userMessage '''') = ''user'' \<and>
      (\<forall>msg\<in>set [assistantMessage ''Yes?'']. role msg \<noteq> ''user'')"
    by (simp add: userMessage_def assistantMessage_def)
  have e2: "extractQueryFromMessage (userMessage '''') = []"
    by (simp add: extractQueryFromMessage_def userMessage_def)
  have 2: "enhancePromptWithRAG ImportFails ''Be brief.'' [userMessage '''', assistantMessage ''Yes?'']
      () None = ''Be brief.''"
    by (rule mp [OF conjunct1 [OF mp [OF conjunct2 [OF t] s2]] e2])
  have s3: "[userMessage ''hello''] = [] @ userMessage ''hello'' # [] \<and>
      role (userMessage ''hello'') = ''user'' \<and> (\<forall>msg\<in>set []. role msg \<noteq> ''user'')"
    by (simp add: userMessage_def)
  have e3: "\<not> enabled (getRagConfig (extractQueryFromMessage (userMessage ''hello'')) (chatModelOf None))"
    by (simp add: extractQueryFromMessage_def userMessage_def getRagConfig_def classify)
  have 3: "enhancePromptWithRAG ImportFails ''Be brief.'' [userMessage ''hello'']
      () None = ''Be brief.''"
    by (rule mp [OF conjunct1 [OF conjunct2 [OF mp [OF conjunct2 [OF t] s3]]] e3])
  have s4: "[userMessage ''tell me more''] = [] @ userMessage ''tell me more'' # [] \<and>
      role (userMessage ''tell me more'') = ''user'' \<and> (\<forall>msg\<in>set []. role msg \<noteq> ''user'')"
    by (simp add: userMessage_def)
  have e4: "retrieveContext emptyBackend
         (retrievalOptionsOf (extractQueryFromMessage (userMessage ''tell me more''))
            (getRagConfig (extractQueryFromMessage (userMessage ''tell me more'')) (chatModelOf None))) = []"
    by (simp add: retrieveContext_def emptyBackend_def initRagieClient_def safeRetrieve_def
        removeDuplicateResults_def rerankResults_def slice0_def Let_def)
  have 4: "enhancePromptWithRAG emptyBackend ''Be brief.'' [userMessage ''tell me more'']
      () None = ''Be brief.''"
    by (rule mp [OF conjunct1 [OF conjunct2 [OF conjunct2 [OF mp [OF conjunct2 [OF t] s4]]]] e4])
  have e5: "formatRetrievedContext (retrieveContext emptyBackend
         (retrievalOptionsOf (extractQueryFromMessage (userMessage ''tell me more''))
            (getRagConfig (extractQueryFromMessage (userMessage ''tell me more'')) (chatModelOf None)))) = []"
    by (simp add: e4 formatRetrievedContext_def)
  have 5: "enhancePromptWithRAG emptyBackend ''Be brief.'' [userMessage ''tell me more'']
      () None = ''Be brief.''"
    by (rule mp [OF conjunct2 [OF conjunct2 [OF conjunct2 [OF mp [OF conjunct2 [OF t] s4]]]] e5])
  show ?thesis using 1 2 3 4 5 by (intro conjI)
qed

text \<open>
  Claim C9. The string returned by \<open>enhancePromptWithRAG\<close> is \<open>systemPrompt\<close>, or it is
  \<open>systemPrompt\<close> followed by a blank line, the line \<open>RETRIEVED CONTEXT:\<close> and more text:
  the original prompt is a prefix of the output, unaltered.
\<close>

theorem enhancePromptWithRAG_prefix:
  fixes requestHints :: 'h
  shows
  "enhancePromptWithRAG sdk systemPrompt messages requestHints model = systemPrompt \<or>
   (\<exists>rest. enhancePromptWithRAG sdk systemPrompt messages requestHints model =
      systemPrompt @ ''\<newline>\<newline>RETRIEVED CONTEXT:\<newline>'' @ rest)"
  by (simp add: enhancePromptWithRAG_def createEnhancedRAGPrompt_def Let_def split: option.splits)

section \<open>Properties of the reranking\<close>

text \<open>
  The comparator is the order of \<open>rankKey\<close>, so the sort of \<open>rerankResults\<close> is the
  library's stable insertion sort by that key.
\<close>

lemma compareResults_le_iff: "compareResults q a b \<le> 0 \<longleftrightarrow> rankKey q a \<le> rankKey q b"
  by (auto simp: compareResults_def rankKey_def less_eq_prod_def)

lemma insertBy_insort_key: "insertBy (compareResults q) x ys = insort_key (rankKey q) x ys"
  by (induction ys) (simp_all add: compareResults_le_iff)

lemma sortBy_sort_key: "sortBy (compareResults q) xs = sort_key (rankKey q) xs"
  by (induction xs) (simp_all add: sortBy_def insertBy_insort_key)

lemma rerankResults_sort_key: "rerankResults q rs = sort_key (rankKey q) rs"
proof (cases rs)
  case Nil
  then show ?thesis by (simp add: rerankResults_def)
next
  case (Cons r rs')
  then show ?thesis by (cases rs') (simp_all add: rerankResults_def sortBy_sort_key)
qed

lemma rankKey_le_iff:
  "rankKey q a \<le> rankKey q b \<longleftrightarrow>
     (containsQuery q b \<longrightarrow> containsQuery q a) \<and>
     (containsQuery q a = containsQuery q b \<longrightarrow> scoreOrZero b \<le> scoreOrZero a)"
  by (auto simp: rankKey_def less_eq_prod_def)

lemma rankKey_eq_iff:
  "rankKey q a = k \<longleftrightarrow> containsQuery q a = (\<not> fst k) \<and> scoreOrZero a = - snd k"
  by (cases k) (auto simp: rankKey_def)

text \<open>
  Claim C6. \<open>rerankResults q results\<close> is a stable reordering of \<open>results\<close>: it has the
  same entries; no result whose content does not contain \<open>q\<close> (case-insensitively)
  stands before one whose content does; among results of equal containment status the
  scores descend, a missing score counting as 0; and results with the same status and
  score keep their input order.
\<close>

theorem rerankResults_stable_order:
  "mset (rerankResults q rs) = mset rs \<and>
   sorted_wrt (\<lambda>a b. (containsQuery q b \<longrightarrow> containsQuery q a) \<and>
                     (containsQuery q a = containsQuery q b \<longrightarrow> scoreOrZero b \<le> scoreOrZero a))
     (rerankResults q rs) \<and>
   (\<forall>c s. filter (\<lambda>r. containsQuery q r = c \<and> scoreOrZero r = s) (rerankResults q rs) =
          filter (\<lambda>r. containsQuery q r = c \<and> scoreOrZero r = s) rs)"
proof (intro conjI allI)
  show "mset (rerankResults q rs) = mset rs"
    by (simp add: rerankResults_sort_key)
next
  have "sorted (map (rankKey q) (sort_key (rankKey q) rs))"
    by (rule sorted_sort_key)
  then show "sorted_wrt (\<lambda>a b. (containsQuery q b \<longrightarrow> containsQuery q a) \<and>
                     (containsQuery q a = containsQuery q b \<longrightarrow> scoreOrZero b \<le> scoreOrZero a))
     (rerankResults q rs)"
    by (simp add: sorted_map rankKey_le_iff rerankResults_sort_key)
next
  fix c s
  have "filter (\<lambda>r. rankKey q r = (\<not> c, - s)) (sort_key (rankKey q) rs) =
        filter (\<lambda>r. rankKey q r = (\<not> c, - s)) rs"
    by (rule sort_key_stable)
  then show "filter (\<lambda>r. containsQuery q r = c \<and> scoreOrZero r = s) (rerankResults q rs) =
          filter (\<lambda>r. containsQuery q r = c \<and> scoreOrZero r = s) rs"
    by (simp add: rankKey_eq_iff rerankResults_sort_key)
qed

theorem rerankResults_stable_order_witness:
  "rerankResults ''rag''
     [bareResult ''About cats'' (Some (9 / 10)), bareResult ''RAG basics'' None,
      bareResult ''More on rag'' (Some (1 / 2)), bareResult ''Storage'' (Some (1 / 2))] =
     [bareResult ''More on rag'' (Some (1 / 2)), bareResult ''Storage'' (Some (1 / 2)),
      bareResult ''RAG basics'' None, bareResult ''About cats'' (Some (9 / 10))] \<and>
   sorted_wrt (\<lambda>a b. (containsQuery ''rag'' b \<longrightarrow> containsQuery ''rag'' a) \<and>
                     (containsQuery ''rag'' a = containsQuery ''rag'' b \<longrightarrow> scoreOrZero b \<le> scoreOrZero a))
     [bareResult ''More on rag'' (Some (1 / 2)), bareResult ''Storage'' (Some (1 / 2)),
      bareResult ''RAG basics'' None, bareResult ''About cats'' (Some (9 / 10))]"
proof -
  let ?rs = "[bareResult ''About cats'' (Some (9 / 10)), bareResult ''RAG basics'' None,
      bareResult ''More on rag'' (Some (1 / 2)), bareResult ''Storage'' (Some (1 / 2))]"
  have c: "\<not> containsQuery ''rag'' (bareResult ''About cats'' (Some (9 / 10)))"
    "containsQuery ''rag'' (bareResult ''RAG basics'' None)"
    "containsQuery ''rag'' (bareResult ''More on rag'' (Some (1 / 2)))"
    "containsQuery ''rag'' (bareResult ''Storage'' (Some (1 / 2)))"
    by (simp_all add: containsQuery_def bareResult_def lower)
  have s: "scoreOrZero (bareResult ''About cats'' (Some (9 / 10))) = 9 / 10"
    "scoreOrZero (bareResult ''RAG basics'' None) = 0"
    "scoreOrZero (bareResult ''More on rag'' (Some (1 / 2))) = 1 / 2"
    "scoreOrZero (bareResult ''Storage'' (Some (1 / 2))) = 1 / 2"
    by (simp_all add: scoreOrZero_def bareResult_def)
  have e: "rerankResults ''rag'' ?rs =
     [bareResult ''More on rag'' (Some (1 / 2)), bareResult ''Storage'' (Some (1 / 2)),
      bareResult ''RAG basics'' None, bareResult ''About cats'' (Some (9 / 10))]"
    by (simp add: rerankResults_def sortBy_def compareResults_def c s)
  show ?thesis
    using rerankResults_stable_order [of "''rag''" ?rs] by (simp only: e)
qed

section \<open>Properties of the formatting\<close>

lemma formatDocument_not_empty: "formatDocument i r \<noteq> []"
  by (simp add: formatDocument_def)

lemma join_not_empty: "xs \<noteq> [] \<Longrightarrow> hd xs \<noteq> [] \<Longrightarrow> join sep xs \<noteq> []"
  by (induction sep xs rule: join.induct) auto

lemma formatRetrievedContext_empty_iff: "formatRetrievedContext rs = [] \<longleftrightarrow> rs = []"
proof (cases rs)
  case Nil
  then show ?thesis by (simp add: formatRetrievedContext_def)
next
  case (Cons r rs')
  have "join ''\<newline>\<newline>'' (map (\<lambda>(index, result). formatDocument index result) (enumerate 0 (r # rs'))) \<noteq> []"
    by (rule join_not_empty) (simp_all add: formatDocument_not_empty)
  then show ?thesis using Cons by (simp add: formatRetrievedContext_def)
qed








section \<open>Properties of the retrieval\<close>

subsection \<open>Deduplication\<close>

text \<open>
  \<open>removeDuplicateResults\<close> keeps a subsequence of its input with pairwise different
  keys, and every result it keeps is the first of the input with that key.
\<close>

lemma removeDuplicatesLoop_firstOccurrences:
  "removeDuplicatesLoop seen acc rs = acc @ firstOccurrences seen rs"
  by (induction rs arbitrary: seen acc) simp_all

lemma removeDuplicateResults_firstOccurrences:
  "removeDuplicateResults rs = firstOccurrences {} rs"
  by (simp add: removeDuplicateResults_def removeDuplicatesLoop_firstOccurrences)


lemma hashes_firstOccurrences:
  "contentHash ` set (firstOccurrences seen rs) = contentHash ` set rs - seen"
  by (induction rs arbitrary: seen) auto

lemma distinct_firstOccurrences: "distinct (map contentHash (firstOccurrences seen rs))"
proof (induction rs arbitrary: seen)
  case Nil
  show ?case by simp
next
  case (Cons r rs)
  have "contentHash r \<notin> contentHash ` set (firstOccurrences (insert (contentHash r) seen) rs)"
    by (simp add: hashes_firstOccurrences)
  with Cons show ?case by simp
qed

lemma find_firstOccurrences:
  "r \<in> set (firstOccurrences seen rs) \<Longrightarrow>
     find (\<lambda>x. contentHash x = contentHash r) rs = Some r"
proof (induction rs arbitrary: seen)
  case Nil
  then show ?case by simp
next
  case (Cons x rs)
  show ?case
  proof (cases "contentHash x \<in> seen")
    case True
    with Cons.prems have in_rest: "r \<in> set (firstOccurrences seen rs)" by simp
    then have "contentHash r \<in> contentHash ` set rs - seen"
      using hashes_firstOccurrences [of seen rs] by blast
    with True have "contentHash x \<noteq> contentHash r" by auto
    with Cons.IH [OF in_rest] show ?thesis by simp
  next
    case False
    show ?thesis
    proof (cases "r = x")
      case True
      then show ?thesis by simp
    next
      case neq: False
      with False Cons.prems
      have in_rest: "r \<in> set (firstOccurrences (insert (contentHash x) seen) rs)" by simp
      then have "contentHash r \<in> contentHash ` set rs - insert (contentHash x) seen"
        using hashes_firstOccurrences [of "insert (contentHash x) seen" rs] by blast
      then have "contentHash x \<noteq> contentHash r" by auto
      with Cons.IH [OF in_rest] show ?thesis by simp
    qed
  qed
qed

subsection \<open>The two paths of \<open>retrieveContext\<close>\<close>

text \<open>
  When both replies are arrays the result is the truncated, reranked, deduplicated
  concatenation; when one is not, it is the built-in data for the query, of at most three
  entries whatever \<open>topK\<close> is.
\<close>

lemma retrieveContext_results:
  assumes "mainReply sdk options = Results mainResults"
    and "expansionReply sdk options = Results expansionResults"
  shows "retrieveContext sdk options =
     take (topKOf options)
       (rerankResults (query options)
          (removeDuplicateResults
             (combinedResults (includeMetadataOf options) mainResults expansionResults)))"
  using assms
  by (simp add: retrieveContext_def mainReply_def expansionReply_def combinedResults_def
      slice0_def Let_def)

lemma retrieveContext_fallback:
  assumes "mainReply sdk options = NotAnArray \<or> expansionReply sdk options = NotAnArray"
  shows "retrieveContext sdk options =
     map (formatFallback (includeMetadataOf options)) (getMockRetrievalResults (query options))"
  using assms
  by (auto simp: retrieveContext_def mainReply_def expansionReply_def Let_def split: Reply.splits)

lemma length_getMockRetrievalResults: "length (getMockRetrievalResults q) \<le> 3"
  by (simp add: getMockRetrievalResults_def weatherResults_def documentResults_def slice0_def Let_def)

lemma safeRetrieve_not_Throws: "safeRetrieve client flt inclMeta q k \<noteq> Throws"
  by (simp add: safeRetrieve_def Let_def split: option.splits Reply.splits)

lemma length_rerankResults: "length (rerankResults q rs) = length rs"
  by (simp add: rerankResults_sort_key)

lemma length_retrieveContext:
  "length (retrieveContext sdk options) \<le> max 3 (topKOf options)"
proof (cases "\<exists>m e. mainReply sdk options = Results m \<and> expansionReply sdk options = Results e")
  case True
  then obtain m e where "mainReply sdk options = Results m" "expansionReply sdk options = Results e"
    by blast
  then show ?thesis by (simp add: retrieveContext_results)
next
  case False
  have "mainReply sdk options \<noteq> Throws" "expansionReply sdk options \<noteq> Throws"
    by (simp_all add: mainReply_def expansionReply_def safeRetrieve_not_Throws)
  with False have "mainReply sdk options = NotAnArray \<or> expansionReply sdk options = NotAnArray"
    by (cases "mainReply sdk options"; cases "expansionReply sdk options") simp_all
  then show ?thesis
    using length_getMockRetrievalResults [of "query options"]
    by (simp add: retrieveContext_fallback)
qed

subsection \<open>Evaluating the retrieval on the built-in data\<close>

lemma contentOf_asRaw: "contentOf (asRaw e) = kb_content e"
  by (simp add: contentOf_def asRaw_def)

lemma contentHash_formatMain:
  "contentHash (formatMain b (asRaw e)) = toLowerCase (trim (take 100 (kb_content e)))"
  by (simp add: contentHash_def formatMain_def contentOf_asRaw slice0_def)

lemma contentHash_formatExpansion:
  "contentHash (formatExpansion b (asRaw e)) = toLowerCase (trim (take 100 (kb_content e)))"
  by (simp add: contentHash_def formatExpansion_def contentOf_asRaw slice0_def)

lemma containsQuery_formatMain:
  "containsQuery q (formatMain b (asRaw e)) = includesStr (toLowerCase (kb_content e)) (toLowerCase q)"
  by (simp add: containsQuery_def formatMain_def contentOf_asRaw)

lemma sourceOf_formatMain: "sourceOf (formatMain True (asRaw e)) = Some (kb_source e)"
  by (simp add: sourceOf_def formatMain_def asRaw_def)

lemma mock_replies:
  "mainReply ImportFails options = Results (map asRaw (getMockRetrievalResults (query options)))"
  "expansionReply ImportFails options =
     Results (map asRaw (getMockRetrievalResults (generateExpansionQuery (query options))))"
  by (simp_all add: mainReply_def expansionReply_def initRagieClient_def safeRetrieve_def)

lemma artifact_mock:
  "getMockRetrievalResults ''artifact'' = documentResults"
  "generateExpansionQuery ''artifact'' = ''what is artifact''"
  "getMockRetrievalResults ''what is artifact'' = documentResults"
  by (simp_all add: getMockRetrievalResults_def generateExpansionQuery_def questionWords_def lower)

lemma artifact_order:
  "map sourceOf (retrieveContext ImportFails (optionsFor ''artifact'' None)) =
     [Some ''UI Component Guide'', Some ''Document Tool Documentation''] \<and>
   map sourceOf
     (take 3 (removeDuplicateResults
        (combinedResults True (map asRaw documentResults) (map asRaw documentResults)))) =
     [Some ''Document Tool Documentation'', Some ''UI Component Guide'']"
proof -
  define d1 where "d1 = documentResults ! 0"
  define d2 where "d2 = documentResults ! 1"
  have ds: "documentResults = [d1, d2]"
    by (simp add: d1_def d2_def documentResults_def)
  have src: "kb_source d1 = ''Document Tool Documentation''" "kb_source d2 = ''UI Component Guide''"
    by (simp_all add: d1_def d2_def documentResults_def)
  have h: "toLowerCase (trim (take 100 (kb_content d1))) \<noteq> toLowerCase (trim (take 100 (kb_content d2)))"
    by (simp add: d1_def d2_def documentResults_def trim_def isWhiteSpace_Char lower)
  have c: "\<not> includesStr (toLowerCase (kb_content d1)) ''artifact''"
    "includesStr (toLowerCase (kb_content d2)) ''artifact''"
    by (simp_all add: d1_def d2_def documentResults_def lower)
  have q: "toLowerCase ''artifact'' = ''artifact''" by (simp add: lower)
  have o: "query (optionsFor ''artifact'' None) = ''artifact''"
    "topKOf (optionsFor ''artifact'' None) = 3"
    "includeMetadataOf (optionsFor ''artifact'' None) = True"
    by (simp_all add: optionsFor_def topKOf_def includeMetadataOf_def)
  have u: "removeDuplicateResults (combinedResults True (map asRaw documentResults) (map asRaw documentResults)) =
     [formatMain True (asRaw d1), formatMain True (asRaw d2)]"
    using h
    by (simp add: ds combinedResults_def removeDuplicateResults_firstOccurrences
        contentHash_formatMain contentHash_formatExpansion)
  have r: "rerankResults ''artifact'' [formatMain True (asRaw d1), formatMain True (asRaw d2)] =
     [formatMain True (asRaw d2), formatMain True (asRaw d1)]"
    by (simp add: rerankResults_def sortBy_def compareResults_def containsQuery_formatMain q c)
  have "retrieveContext ImportFails (optionsFor ''artifact'' None) =
     [formatMain True (asRaw d2), formatMain True (asRaw d1)]"
    by (simp add: retrieveContext_results [OF mock_replies] o artifact_mock u r)
  then show ?thesis
    by (simp add: u sourceOf_formatMain src)
qed

lemma artifact_options:
  "query (optionsFor ''artifact'' None) = ''artifact''"
  "topKOf (optionsFor ''artifact'' None) = 3"
  "includeMetadataOf (optionsFor ''artifact'' None) = True"
  by (simp_all add: optionsFor_def topKOf_def includeMetadataOf_def)

lemma throwing_replies:
  "mainReply throwingBackend options = Results (map asRaw (getMockRetrievalResults (query options)))"
  "expansionReply throwingBackend options =
     Results (map asRaw (getMockRetrievalResults (generateExpansionQuery (query options))))"
  by (simp_all add: mainReply_def expansionReply_def initRagieClient_def safeRetrieve_def
      throwingBackend_def)

lemma getMockRetrievalResults_rag:
  assumes "\<not> includesStr (toLowerCase q) ''weather''"
    and "\<not> includesStr (toLowerCase q) ''document''"
    and "\<not> includesStr (toLowerCase q) ''artifact''"
    and "includesStr (toLowerCase q) ''rag''"
  shows "getMockRetrievalResults q = take 3 mockKb"
  using assms by (simp add: getMockRetrievalResults_def slice0_def Let_def)

lemma rag_mock:
  "getMockRetrievalResults ''what is RAG?'' = take 3 mockKb"
  "generateExpansionQuery ''what is RAG?'' = ''background information what is RAG''"
  "getMockRetrievalResults ''background information what is RAG'' = take 3 mockKb"
proof -
  show "getMockRetrievalResults ''what is RAG?'' = take 3 mockKb"
    by (rule getMockRetrievalResults_rag) (simp_all add: lower)
  show "generateExpansionQuery ''what is RAG?'' = ''background information what is RAG''"
    by (simp add: generateExpansionQuery_def questionWords_def dropFinalQuestionMark_def lower)
  show "getMockRetrievalResults ''background information what is RAG'' = take 3 mockKb"
    by (rule getMockRetrievalResults_rag) (simp_all add: lower)
qed

lemma scoreOr_asRaw: "kb_score e \<noteq> 0 \<Longrightarrow> scoreOr d (asRaw e) = kb_score e"
  by (simp add: scoreOr_def asRaw_def)

lemma scoreOrZero_formatMain: "scoreOrZero (formatMain b r) = scoreOr (9 / 10) r"
  by (simp add: scoreOrZero_def formatMain_def)

lemma rag_ranking:
  "rerankResults ''what is RAG?''
     (removeDuplicateResults
        (combinedResults True (map asRaw (take 3 mockKb)) (map asRaw (take 3 mockKb)))) =
   map (formatMain True) (map asRaw (take 3 mockKb))"
proof -
  define e1 where "e1 = mockKb ! 0"
  define e2 where "e2 = mockKb ! 1"
  define e3 where "e3 = mockKb ! 2"
  have es: "take 3 mockKb = [e1, e2, e3]"
    by (simp add: e1_def e2_def e3_def mockKb_def)
  have h: "toLowerCase (trim (take 100 (kb_content e1))) \<noteq> toLowerCase (trim (take 100 (kb_content e2)))"
    "toLowerCase (trim (take 100 (kb_content e1))) \<noteq> toLowerCase (trim (take 100 (kb_content e3)))"
    "toLowerCase (trim (take 100 (kb_content e2))) \<noteq> toLowerCase (trim (take 100 (kb_content e3)))"
    by (simp_all add: e1_def e2_def e3_def mockKb_def trim_def isWhiteSpace_Char lower)
  have q: "toLowerCase ''what is RAG?'' = ''what is rag?''" by (simp add: lower)
  have c1: "\<not> includesStr (toLowerCase (kb_content e1)) ''what is rag?''"
    by (simp add: e1_def mockKb_def lower)
  have c2: "\<not> includesStr (toLowerCase (kb_content e2)) ''what is rag?''"
    by (simp add: e2_def mockKb_def lower)
  have c3: "\<not> includesStr (toLowerCase (kb_content e3)) ''what is rag?''"
    by (simp add: e3_def mockKb_def lower)
  have s: "scoreOr (9 / 10) (asRaw e1) = 92 / 100" "scoreOr (9 / 10) (asRaw e2) = 87 / 100"
    "scoreOr (9 / 10) (asRaw e3) = 85 / 100"
    by (simp_all add: scoreOr_def asRaw_def e1_def e2_def e3_def mockKb_def)
  have u: "removeDuplicateResults
        (combinedResults True (map asRaw (take 3 mockKb)) (map asRaw (take 3 mockKb))) =
     [formatMain True (asRaw e1), formatMain True (asRaw e2), formatMain True (asRaw e3)]"
    using h
    by (simp add: es combinedResults_def removeDuplicateResults_firstOccurrences
        contentHash_formatMain contentHash_formatExpansion)
  show ?thesis
    unfolding u
    by (simp add: es rerankResults_def sortBy_def compareResults_def containsQuery_formatMain q
        c1 c2 c3 scoreOrZero_formatMain s)
qed

lemma rag_retrieval:
  assumes "query options = ''what is RAG?''" and "includeMetadataOf options = True"
    and "3 \<le> topKOf options" and "sdk = ImportFails \<or> sdk = throwingBackend"
  shows "retrieveContext sdk options = map (formatMain True) (map asRaw (take 3 mockKb))"
proof -
  have "mainReply sdk options = Results (map asRaw (take 3 mockKb))"
    "expansionReply sdk options = Results (map asRaw (take 3 mockKb))"
    using assms(1,4) by (auto simp: mock_replies throwing_replies rag_mock)
  then show ?thesis
    using assms(3) by (simp add: retrieveContext_results assms(1,2) rag_ranking)
qed

lemma rag_sources:
  "map sourceOf (map (formatMain True) (map asRaw (take 3 mockKb))) =
     [Some ''RAG Documentation'', Some ''AI Best Practices Guide'', Some ''RAG Architecture Guide'']"
  by (simp add: mockKb_def sourceOf_formatMain)

lemma rag_source_entries:
  "map kb_source (filter (\<lambda>entry. includesStr (toLowerCase (kb_source entry)) ''rag'') mockKb) =
     [''RAG Documentation'', ''RAG Architecture Guide'', ''RAG Implementation Guide'',
      ''Ragie SDK Documentation'', ''RAG Best Practices'', ''Prompt Engineering for RAG'']"
  by (simp add: mockKb_def lower)

lemma startsWith_set: "startsWith s p \<Longrightarrow> set p \<subseteq> set s"
  by (induction s p rule: startsWith.induct) auto

lemma includesStr_set: "includesStr s p \<Longrightarrow> set p \<subseteq> set s"
proof (induction s)
  case Nil
  then show ?case by simp
next
  case (Cons a s)
  then show ?case using startsWith_set [of "a # s" p] by auto
qed

lemma trim_a: "trim (replicate n (CHR ''a'')) = replicate n (CHR ''a'')"
  by (simp add: trim_def dropWhile_replicate isWhiteSpace_Char)

lemma trim_space_a: "trim (CHR '' '' # replicate n (CHR ''a'')) = replicate n (CHR ''a'')"
  by (simp add: trim_def dropWhile_replicate isWhiteSpace_Char dropWhile_append)

lemma lower_a: "toLowerCase (replicate n (CHR ''a'')) = replicate n (CHR ''a'')"
  by (simp add: lower)

lemma dup_keys:
  "specContentKey paddedContent = replicate 100 (CHR ''a'')"
  "specContentKey plainContent = replicate 100 (CHR ''a'')"
  "toLowerCase (trim (take 100 paddedContent)) = replicate 99 (CHR ''a'')"
  "toLowerCase (trim (take 100 plainContent)) = replicate 100 (CHR ''a'')"
  by (simp_all add: specContentKey_def paddedContent_def plainContent_def slice0_def
      trim_a trim_space_a lower_a)

lemma contentOf_rawDocument: "contentOf (rawDocument c s) = c"
  by (simp add: contentOf_def rawDocument_def)

lemma dup_replies:
  "mainReply dupBackend (optionsFor ''dup'' None) =
     Results [rawDocument paddedContent (9 / 10), rawDocument plainContent (1 / 2)]"
  "expansionReply dupBackend (optionsFor ''dup'' None) = Results []"
  by (simp_all add: mainReply_def expansionReply_def dupBackend_def initRagieClient_def
      safeRetrieve_def optionsFor_def generateExpansionQuery_def questionWords_def lower)

lemma createEnhancedRAGPrompt_contains:
  "\<exists>pre post. createEnhancedRAGPrompt basePrompt q ctx = pre @ ''RETRIEVED CONTEXT'' @ post"
  by (rule exI [of _ "basePrompt @ ''\<newline>\<newline>''"])
    (simp add: createEnhancedRAGPrompt_def Let_def)

subsection \<open>The claims on \<open>retrieveContext\<close>\<close>

text \<open>
  Claim C3. The list returned by \<open>retrieveContext\<close> has at most \<open>topK\<close> entries on every
  path. The code breaks this on its \<open>catch\<close> path: with \<open>topK = 1\<close>, the query
  \<open>weather\<close> and a backend whose reply is not an array, \<open>.map\<close> throws and the two
  built-in weather entries are returned, without the truncation \<open>slice(0, topK)\<close> of the
  main path.
\<close>

theorem retrieveContext_fallback_exceeds_topK:
  "topKOf (optionsFor ''weather'' (Some 1)) = 1 \<and>
   length (retrieveContext malformedBackend (optionsFor ''weather'' (Some 1))) = 2"
  by (simp add: retrieveContext_def malformedBackend_def initRagieClient_def safeRetrieve_def
      optionsFor_def topKOf_def filterOf_def includeMetadataOf_def Let_def
      getMockRetrievalResults_def weatherResults_def lower)




text \<open>
  Claim C5, as the code has it, with the key \<open>contentHash\<close>: the first 100 characters of
  the content, then trimmed, then lower-cased. When both replies are arrays, no two
  results of the output of \<open>retrieveContext\<close> have the same key, and every result of the
  output is the first result of the combined list with its key.
\<close>

theorem retrieveContext_first_occurrence_only:
  assumes "mainReply sdk options = Results mainResults"
    and "expansionReply sdk options = Results expansionResults"
  shows "distinct (map contentHash (retrieveContext sdk options)) \<and>
     (\<forall>r\<in>set (retrieveContext sdk options).
        find (\<lambda>x. contentHash x = contentHash r)
          (combinedResults (includeMetadataOf options) mainResults expansionResults) = Some r)"
proof -
  let ?all = "combinedResults (includeMetadataOf options) mainResults expansionResults"
  let ?uniq = "removeDuplicateResults ?all"
  let ?ranked = "rerankResults (query options) ?uniq"
  have out: "retrieveContext sdk options = take (topKOf options) ?ranked"
    using assms by (rule retrieveContext_results)
  have "mset (map contentHash ?ranked) = mset (map contentHash ?uniq)"
    by (simp add: rerankResults_sort_key)
  moreover have "distinct (map contentHash ?uniq)"
    by (simp add: removeDuplicateResults_firstOccurrences distinct_firstOccurrences)
  ultimately have "distinct (map contentHash ?ranked)"
    by (metis mset_eq_imp_distinct_iff)
  then have d: "distinct (map contentHash (take (topKOf options) ?ranked))"
    by (simp add: take_map [symmetric] del: take_map)
  have "set (take (topKOf options) ?ranked) \<subseteq> set ?uniq"
    using set_take_subset [of "topKOf options" ?ranked] by (simp add: rerankResults_sort_key)
  then have "\<forall>r\<in>set (take (topKOf options) ?ranked).
      find (\<lambda>x. contentHash x = contentHash r) ?all = Some r"
    using find_firstOccurrences [of _ "{}" ?all]
    by (auto simp: removeDuplicateResults_firstOccurrences)
  with d show ?thesis by (simp only: out)
qed

theorem retrieveContext_first_occurrence_only_witness:
  "length (combinedResults True (map asRaw documentResults) (map asRaw documentResults)) = 4 \<and>
   map sourceOf (retrieveContext ImportFails (optionsFor ''artifact'' None)) =
     [Some ''UI Component Guide'', Some ''Document Tool Documentation''] \<and>
   distinct (map contentHash (retrieveContext ImportFails (optionsFor ''artifact'' None))) \<and>
   find (\<lambda>x. contentHash x = contentHash (hd (retrieveContext ImportFails (optionsFor ''artifact'' None))))
     (combinedResults True (map asRaw documentResults) (map asRaw documentResults)) =
     Some (hd (retrieveContext ImportFails (optionsFor ''artifact'' None)))"
proof -
  let ?out = "retrieveContext ImportFails (optionsFor ''artifact'' None)"
  have m: "mainReply ImportFails (optionsFor ''artifact'' None) = Results (map asRaw documentResults)"
    by (simp add: mock_replies artifact_options artifact_mock)
  have e: "expansionReply ImportFails (optionsFor ''artifact'' None) = Results (map asRaw documentResults)"
    by (simp add: mock_replies artifact_options artifact_mock)
  note t = retrieveContext_first_occurrence_only [OF m e, unfolded artifact_options]
  have s: "map sourceOf ?out = [Some ''UI Component Guide'', Some ''Document Tool Documentation'']"
    using artifact_order by simp
  then have "?out \<noteq> []" by auto
  then have "hd ?out \<in> set ?out" by simp
  with t have "find (\<lambda>x. contentHash x = contentHash (hd ?out))
     (combinedResults True (map asRaw documentResults) (map asRaw documentResults)) = Some (hd ?out)"
    by blast
  moreover have "length (combinedResults True (map asRaw documentResults) (map asRaw documentResults)) = 4"
    by (simp add: combinedResults_def documentResults_def)
  ultimately show ?thesis using t s by (intro conjI) simp_all
qed

text \<open>
  The claim as stated takes the key by trimming and lower-casing first and cutting to 100
  characters afterwards. The two contents of \<open>dupBackend\<close> have the same such key, and
  both are in the output: the code cuts first, so the leading space of the first content
  costs it its last \<open>a\<close>.
\<close>

theorem retrieveContext_keeps_spec_duplicates:
  "mainReply dupBackend (optionsFor ''dup'' None) =
     Results [rawDocument paddedContent (9 / 10), rawDocument plainContent (1 / 2)] \<and>
   expansionReply dupBackend (optionsFor ''dup'' None) = Results [] \<and>
   specContentKey paddedContent = specContentKey plainContent \<and>
   map content (retrieveContext dupBackend (optionsFor ''dup'' None)) = [paddedContent, plainContent] \<and>
   contentHash (bareResult paddedContent None) \<noteq> specContentKey paddedContent"
proof -
  let ?p = "formatMain True (rawDocument paddedContent (9 / 10))"
  let ?q = "formatMain True (rawDocument plainContent (1 / 2))"
  have o: "query (optionsFor ''dup'' None) = ''dup''" "topKOf (optionsFor ''dup'' None) = 3"
    "includeMetadataOf (optionsFor ''dup'' None) = True"
    by (simp_all add: optionsFor_def topKOf_def includeMetadataOf_def)
  have h: "contentHash ?p = replicate 99 (CHR ''a'')" "contentHash ?q = replicate 100 (CHR ''a'')"
    by (simp_all add: contentHash_def formatMain_def contentOf_rawDocument slice0_def dup_keys)
  have u: "removeDuplicateResults (combinedResults True
        [rawDocument paddedContent (9 / 10), rawDocument plainContent (1 / 2)] []) = [?p, ?q]"
    by (simp add: combinedResults_def removeDuplicateResults_firstOccurrences h)
  have "CHR ''d'' \<notin> set (toLowerCase paddedContent)" "CHR ''d'' \<notin> set (toLowerCase plainContent)"
    by (simp_all add: paddedContent_def plainContent_def lower)
  then have c: "\<not> containsQuery ''dup'' ?p" "\<not> containsQuery ''dup'' ?q"
    using includesStr_set [of "toLowerCase paddedContent" "''dup''"]
      includesStr_set [of "toLowerCase plainContent" "''dup''"]
    by (auto simp: containsQuery_def formatMain_def contentOf_rawDocument lower)
  have s: "scoreOrZero ?p = 9 / 10" "scoreOrZero ?q = 1 / 2"
    by (simp_all add: scoreOrZero_def formatMain_def scoreOr_def rawDocument_def)
  have r: "rerankResults ''dup'' [?p, ?q] = [?p, ?q]"
    by (simp add: rerankResults_def sortBy_def compareResults_def c s)
  have out: "retrieveContext dupBackend (optionsFor ''dup'' None) = [?p, ?q]"
    by (simp add: retrieveContext_results [OF dup_replies] o u r)
  have k: "contentHash (bareResult paddedContent None) \<noteq> specContentKey paddedContent"
    by (simp add: contentHash_def bareResult_def slice0_def dup_keys)
  show ?thesis
    using k by (simp add: dup_replies out dup_keys formatMain_def contentOf_rawDocument)
qed

text \<open>
  Claim C8, as the code has it. With the SDK missing, or with a backend whose calls all
  throw, and the query \<open>what is RAG?\<close>, \<open>retrieveContext\<close> returns the first three
  entries of the built-in knowledge base, from the sources \<open>RAG Documentation\<close>,
  \<open>AI Best Practices Guide\<close> and \<open>RAG Architecture Guide\<close>, and
  \<open>enhancePromptWithRAG\<close> returns a string that contains \<open>RETRIEVED CONTEXT\<close>.
\<close>

theorem fallback_what_is_RAG:
  fixes requestHints :: 'h
  shows
  "retrieveContext ImportFails (optionsFor ''what is RAG?'' None) =
     map (formatMain True) (map asRaw (take 3 mockKb)) \<and>
   retrieveContext throwingBackend (optionsFor ''what is RAG?'' None) =
     map (formatMain True) (map asRaw (take 3 mockKb)) \<and>
   map kb_source (take 3 mockKb) =
     [''RAG Documentation'', ''AI Best Practices Guide'', ''RAG Architecture Guide''] \<and>
   (\<exists>pre post.
      enhancePromptWithRAG ImportFails systemPrompt [userMessage ''what is RAG?''] requestHints None =
        pre @ ''RETRIEVED CONTEXT'' @ post) \<and>
   (\<exists>pre post.
      enhancePromptWithRAG throwingBackend systemPrompt [userMessage ''what is RAG?''] requestHints None =
        pre @ ''RETRIEVED CONTEXT'' @ post)"
proof -
  have o: "query (optionsFor ''what is RAG?'' None) = ''what is RAG?''"
    "includeMetadataOf (optionsFor ''what is RAG?'' None) = True"
    "3 \<le> topKOf (optionsFor ''what is RAG?'' None)"
    by (simp_all add: optionsFor_def topKOf_def includeMetadataOf_def)
  have cfg: "getRagConfig ''what is RAG?'' ''chat-model'' = DEFAULT_RAG_CONFIG\<lparr>topK := 5\<rparr>"
    by (simp add: getRagConfig_def classify)
  let ?opts = "retrievalOptionsOf ''what is RAG?'' (DEFAULT_RAG_CONFIG\<lparr>topK := 5\<rparr>)"
  have o': "query ?opts = ''what is RAG?''" "includeMetadataOf ?opts = True" "3 \<le> topKOf ?opts"
    by (simp_all add: retrievalOptionsOf_def topKOf_def includeMetadataOf_def DEFAULT_RAG_CONFIG_def)
  have ne: "map (formatMain True) (map asRaw (take 3 mockKb)) \<noteq> []"
    by (simp add: mockKb_def)
  have en: "enabled (DEFAULT_RAG_CONFIG\<lparr>topK := 5\<rparr>)"
    by (simp add: DEFAULT_RAG_CONFIG_def)
  have enh: "\<exists>pre post.
      enhancePromptWithRAG sdk systemPrompt [userMessage ''what is RAG?''] requestHints None =
        pre @ ''RETRIEVED CONTEXT'' @ post"
    if "sdk = ImportFails \<or> sdk = throwingBackend" for sdk
  proof -
    have r: "retrieveContext sdk ?opts = map (formatMain True) (map asRaw (take 3 mockKb))"
      using o' that by (rule rag_retrieval)
    have "enhancePromptWithRAG sdk systemPrompt [userMessage ''what is RAG?''] requestHints None =
        createEnhancedRAGPrompt systemPrompt ''what is RAG?''
          (formatRetrievedContext (map (formatMain True) (map asRaw (take 3 mockKb))))"
      using ne
      by (simp add: enhancePromptWithRAG_def lastUserMessage_def userMessage_def
          extractQueryFromMessage_def chatModelOf_def cfg r en Let_def
          formatRetrievedContext_empty_iff)
    then show ?thesis
      using createEnhancedRAGPrompt_contains by simp
  qed
  have 1: "retrieveContext ImportFails (optionsFor ''what is RAG?'' None) =
     map (formatMain True) (map asRaw (take 3 mockKb))"
    using o by (rule rag_retrieval) simp
  have 2: "retrieveContext throwingBackend (optionsFor ''what is RAG?'' None) =
     map (formatMain True) (map asRaw (take 3 mockKb))"
    using o by (rule rag_retrieval) simp
  have 3: "map kb_source (take 3 mockKb) =
     [''RAG Documentation'', ''AI Best Practices Guide'', ''RAG Architecture Guide'']"
    by (simp add: mockKb_def)
  show ?thesis
    using 1 2 3 enh [of ImportFails] enh [of throwingBackend] by (intro conjI) simp_all
qed

text \<open>
  The claim as stated returns exactly the entries whose source contains \<open>RAG\<close>. The
  query contains \<open>rag\<close> itself, so every entry passes the filter: the second result
  comes from \<open>AI Best Practices Guide\<close>, and of the six entries whose source contains
  \<open>rag\<close> only two are returned.
\<close>

theorem fallback_returns_non_RAG_source:
  "map sourceOf (retrieveContext ImportFails (optionsFor ''what is RAG?'' None)) =
     [Some ''RAG Documentation'', Some ''AI Best Practices Guide'', Some ''RAG Architecture Guide''] \<and>
   \<not> includesStr (toLowerCase ''AI Best Practices Guide'') ''rag'' \<and>
   map kb_source (filter (\<lambda>entry. includesStr (toLowerCase (kb_source entry)) ''rag'') mockKb) =
     [''RAG Documentation'', ''RAG Architecture Guide'', ''RAG Implementation Guide'',
      ''Ragie SDK Documentation'', ''RAG Best Practices'', ''Prompt Engineering for RAG'']"
proof -
  have "retrieveContext ImportFails (optionsFor ''what is RAG?'' None) =
      map (formatMain True) (map asRaw (take 3 mockKb))"
    by (rule rag_retrieval) (simp_all add: optionsFor_def topKOf_def includeMetadataOf_def)
  then have a: "map sourceOf (retrieveContext ImportFails (optionsFor ''what is RAG?'' None)) =
     [Some ''RAG Documentation'', Some ''AI Best Practices Guide'', Some ''RAG Architecture Guide'']"
    by (simp only: rag_sources)
  have b: "\<not> includesStr (toLowerCase ''AI Best Practices Guide'') ''rag''"
    by (simp add: lower)
  show ?thesis
    using a b rag_source_entries by (intro conjI)
qed

end
